theory Spec2Isabelle
  imports Complex_Main "HOL-Library.Log_Nat"
begin

section \<open>Common Python values\<close>

text \<open>
  A Python \<open>str\<close> is a sequence of Unicode code points; the model keeps it as a list of
  code points, so that \<open>len\<close>, slicing and character tests count what Python counts.
  ASCII literals of the source are written with \<open>str\<close>.
\<close>

type_synonym pystr = "nat list"

definition str :: "string \<Rightarrow> pystr" where
  "str s = map of_char s"

datatype py_error = TypeError | ValueError | KeyError | AttributeError | ZeroDivisionError

section \<open>Python floats\<close>

text \<open>
  A Python \<open>float\<close> is an IEEE 754 binary64 number. The model keeps its value as a
  rational and rounds the exact result of every operation to 53 significant bits, to
  nearest, ties to even, as the hardware and the correctly rounded conversions of
  CPython do. The exponent range is not modelled: overflow to infinity, subnormal
  numbers and NaN need magnitudes beyond \<open>10 ^ 308\<close> or below \<open>10 ^ -308\<close>.
\<close>

definition round_half_even :: "rat \<Rightarrow> int" where
  "round_half_even x =
     (let f = \<lfloor>x\<rfloor>; d = x - of_int f
      in if d < 1 / 2 then f
         else if 1 / 2 < d then f + 1
         else if even f then f else f + 1)"

definition pow2 :: "int \<Rightarrow> rat" where
  "pow2 k = (if 0 \<le> k then 2 ^ nat k else 1 / 2 ^ nat (- k))"

text \<open>The binary exponent of a nonzero number: the \<open>e\<close> with \<open>2 ^ e \<le> |x| < 2 ^ (e + 1)\<close>.\<close>

definition float_exponent :: "rat \<Rightarrow> int" where
  "float_exponent x =
     (let a = \<bar>x\<bar>
      in if 1 \<le> a then bitlen \<lfloor>a\<rfloor> - 1 else - bitlen (\<lceil>1 / a\<rceil> - 1))"

text \<open>Rounding to binary64: to the nearest multiple of \<open>2 ^ (e - 52)\<close>.\<close>

definition fl :: "rat \<Rightarrow> rat" where
  "fl x =
     (if x = 0 then 0
      else let q = pow2 (float_exponent x - 52)
           in of_int (round_half_even (x / q)) * q)"

text \<open>
  \<open>a / b\<close> on two \<open>int\<close>s (for a nonzero \<open>b\<close>): CPython rounds the exact quotient
  once.
\<close>

definition py_int_truediv :: "int \<Rightarrow> int \<Rightarrow> rat" where
  "py_int_truediv a b = fl (of_int a / of_int b)"

text \<open>
  \<open>round(x, ndigits)\<close> on a float: CPython rounds the exact value of \<open>x\<close> to
  \<open>ndigits\<close> decimals, ties to even, and returns the float nearest to that decimal.
\<close>

definition py_round :: "rat \<Rightarrow> nat \<Rightarrow> rat" where
  "py_round x ndigits = fl (of_int (round_half_even (x * 10 ^ ndigits)) / 10 ^ ndigits)"

section \<open>Virality checker (monitor/virality\_checker.py, config.py)\<close>

record ViralityThreshold =
  max_subs :: "int option"
  ratio :: rat

record ViralityThresholds =
  small :: ViralityThreshold
  medium :: ViralityThreshold
  large :: ViralityThreshold

record ViralityResult =
  is_viral :: bool
  score :: rat
  threshold_used :: rat
  channel_category :: pystr
  views :: int
  subscribers :: int

text \<open>
  \<open>subscribers <= self.thresholds.small.max_subs\<close>: \<open>max_subs\<close> is declared
  \<open>Optional[int]\<close>, and comparing an int with \<open>None\<close> raises \<open>TypeError\<close>.
\<close>

definition get_channel_category :: "ViralityThresholds \<Rightarrow> int \<Rightarrow> py_error + pystr" where
  "get_channel_category th subs =
     (case max_subs (small th) of
        None \<Rightarrow> Inl TypeError
      | Some small_max \<Rightarrow>
          if subs \<le> small_max then Inr (str ''small'')
          else (case max_subs (medium th) of
                  None \<Rightarrow> Inl TypeError
                | Some medium_max \<Rightarrow>
                    if subs \<le> medium_max then Inr (str ''medium'')
                    else Inr (str ''large'')))"

definition get_threshold_ratio :: "ViralityThresholds \<Rightarrow> pystr \<Rightarrow> rat" where
  "get_threshold_ratio th category =
     (if category = str ''small'' then ratio (small th)
      else if category = str ''medium'' then ratio (medium th)
      else ratio (large th))"

definition check_virality :: "ViralityThresholds \<Rightarrow> int \<Rightarrow> int \<Rightarrow> py_error + ViralityResult" where
  "check_virality th v subs =
     (if subs \<le> 0 then
        Inr \<lparr>is_viral = False, score = 0, threshold_used = 0,
             channel_category = str ''unknown'', views = v, subscribers = subs\<rparr>
      else
        (case get_channel_category th subs of
           Inl e \<Rightarrow> Inl e
         | Inr category \<Rightarrow>
             let threshold_ratio = get_threshold_ratio th category;
                 sc = py_int_truediv v subs;
                 viral = (threshold_ratio \<le> sc)
             in Inr \<lparr>is_viral = viral, score = py_round sc 3,
                     threshold_used = threshold_ratio,
                     channel_category = category, views = v, subscribers = subs\<rparr>))"

text \<open>
  The thresholds named in the class docstring: 5K / 1.5, 50K / 1.0, open / 0.3, the
  ratios being the floats nearest to these decimals.
\<close>

definition default_thresholds :: ViralityThresholds where
  "default_thresholds =
     \<lparr>small = \<lparr>max_subs = Some 5000, ratio = 3 / 2\<rparr>,
      medium = \<lparr>max_subs = Some 50000, ratio = 1\<rparr>,
      large = \<lparr>max_subs = None, ratio = fl (3 / 10)\<rparr>\<rparr>"


section \<open>Number and percentage extraction (factcheck/verifier.py)\<close>

text \<open>
  The Unicode data that the interpreter brings along is a parameter of the model:
  \<open>str_lower\<close> is \<open>str.lower\<close>, and \<open>decimal_value\<close> gives the digit value of a
  code point that is a decimal digit (category Nd), which is what \<open>\d\<close> matches and
  what \<open>float\<close> reads as a digit, and \<open>None\<close> for every other code point.
\<close>

record unicode =
  str_lower :: "pystr \<Rightarrow> pystr"
  decimal_value :: "nat \<Rightarrow> nat option"

text \<open>\<open>text.replace(old, "")\<close> for a one-character \<open>old\<close>.\<close>

definition remove_char :: "nat \<Rightarrow> pystr \<Rightarrow> pystr" where
  "remove_char c s = filter (\<lambda>x. x \<noteq> c) s"

text \<open>
  The character class \<open>[\d.]\<close>, and \<open>\s\<close> on the code points for which
  \<open>str.isspace\<close> holds.
\<close>

definition is_digit :: "unicode \<Rightarrow> nat \<Rightarrow> bool" where
  "is_digit U c = (decimal_value U c \<noteq> None)"

definition is_digit_dot :: "unicode \<Rightarrow> nat \<Rightarrow> bool" where
  "is_digit_dot U c = (is_digit U c \<or> c = 46)"

definition is_space :: "nat \<Rightarrow> bool" where
  "is_space c =
     ((9 \<le> c \<and> c \<le> 13) \<or> (28 \<le> c \<and> c \<le> 32) \<or> c = 133 \<or> c = 160 \<or> c = 5760
      \<or> (8192 \<le> c \<and> c \<le> 8202) \<or> c = 8232 \<or> c = 8233 \<or> c = 8239 \<or> c = 8287
      \<or> c = 12288)"

text \<open>
  One attempt of \<open>re.search\<close> at a fixed start position for a pattern of the shape
  \<open>\$?([\d.]+)\s*(?:u1|u2|...)\<close> (with \<open>dollar\<close>) or \<open>([\d.]+)\s*(?:u1|...)\<close>
  (without): an optional dollar sign, the longest run of digits and dots, the longest run
  of white space, then one of the unit alternatives. Taking the longest runs loses no
  match: no alternative starts with a digit, a dot or white space, so a shorter run
  leaves a character in front of the unit that the unit cannot match; and an attempt
  that skips the optional dollar sign starts the digit run at the dollar sign and
  fails. The value returned is group 1, the run of digits and dots. The bare-number
  pattern \<open>\$?([\d.]+)\<close> is the same shape with the empty string as its only
  alternative.
\<close>

definition match_here :: "unicode \<Rightarrow> bool \<Rightarrow> pystr list \<Rightarrow> pystr \<Rightarrow> pystr option" where
  "match_here U dollar units s =
     (let s1 = (if dollar then (case s of [] \<Rightarrow> s | c # r \<Rightarrow> if c = 36 then r else s) else s);
          g = takeWhile (is_digit_dot U) s1;
          rest = dropWhile is_space (dropWhile (is_digit_dot U) s1)
      in if g \<noteq> [] \<and> list_ex (\<lambda>u. take (length u) rest = u) units then Some g else None)"

text \<open>\<open>re.search\<close>: the attempt at the leftmost start position that matches.\<close>

fun re_search :: "unicode \<Rightarrow> bool \<Rightarrow> pystr list \<Rightarrow> pystr \<Rightarrow> pystr option" where
  "re_search U dollar units [] = None"
| "re_search U dollar units (c # cs) =
     (case match_here U dollar units (c # cs) of
        Some g \<Rightarrow> Some g
      | None \<Rightarrow> re_search U dollar units cs)"

text \<open>
  \<open>float(s)\<close> for a string of digits and dots, which is all that group 1 can hold:
  digits with at most one dot and at least one digit, read in base ten and rounded once
  to the nearest float; anything else is Python's \<open>ValueError\<close>, here \<open>None\<close>.
\<close>

definition digit_of :: "unicode \<Rightarrow> nat \<Rightarrow> nat" where
  "digit_of U c = (case decimal_value U c of None \<Rightarrow> 0 | Some k \<Rightarrow> k)"

definition digits_value :: "unicode \<Rightarrow> pystr \<Rightarrow> nat" where
  "digits_value U ds = foldl (\<lambda>acc d. 10 * acc + digit_of U d) 0 ds"

definition py_float :: "unicode \<Rightarrow> pystr \<Rightarrow> rat option" where
  "py_float U g =
     (let ip = takeWhile (is_digit U) g; r = dropWhile (is_digit U) g
      in case r of
           [] \<Rightarrow> if ip = [] then None else Some (fl (of_nat (digits_value U ip)))
         | c # fp \<Rightarrow>
             if c = 46 \<and> list_all (is_digit U) fp \<and> (ip \<noteq> [] \<or> fp \<noteq> [])
             then Some (fl (of_nat (digits_value U ip)
                            + of_nat (digits_value U fp) / 10 ^ length fp))
             else None)"

text \<open>The Cyrillic unit words of the patterns, as code points.\<close>

definition mlrd :: pystr where "mlrd = [1084, 1083, 1088, 1076]"
definition mln :: pystr where "mln = [1084, 1083, 1085]"
definition tys :: pystr where "tys = [1090, 1099, 1089]"
definition protsent :: pystr where "protsent = [1087, 1088, 1086, 1094, 1077, 1085, 1090]"

definition patterns :: "(pystr list \<times> rat) list" where
  "patterns =
     [([str ''billion'', mlrd], 1000000000),
      ([str ''million'', mln, str ''m''], 1000000),
      ([str ''thousand'', tys, str ''k''], 1000),
      ([[]], 1)]"

text \<open>
  The loop over the patterns: a pattern that does not match, or whose group is not a
  float (\<open>except ValueError: continue\<close>), hands over to the next one. The product
  \<open>float(match.group(1)) * multiplier\<close> is a float multiplication.
\<close>

fun try_patterns :: "unicode \<Rightarrow> (pystr list \<times> rat) list \<Rightarrow> pystr \<Rightarrow> rat option" where
  "try_patterns U [] text = None"
| "try_patterns U ((units, multiplier) # ps) text =
     (case re_search U True units text of
        None \<Rightarrow> try_patterns U ps text
      | Some g \<Rightarrow>
          (case py_float U g of
             None \<Rightarrow> try_patterns U ps text
           | Some x \<Rightarrow> Some (fl (x * multiplier))))"

definition normalize :: "unicode \<Rightarrow> pystr \<Rightarrow> pystr" where
  "normalize U text = remove_char 32 (remove_char 44 (str_lower U text))"

definition extract_number :: "unicode \<Rightarrow> pystr \<Rightarrow> rat option" where
  "extract_number U text = try_patterns U patterns (normalize U text)"

definition percentage_patterns :: "pystr list list" where
  "percentage_patterns = [[str ''%''], [protsent], [str ''percent'']]"

fun try_percentage :: "unicode \<Rightarrow> pystr list list \<Rightarrow> pystr \<Rightarrow> rat option" where
  "try_percentage U [] text = None"
| "try_percentage U (units # ps) text =
     (case re_search U False units (str_lower U text) of
        None \<Rightarrow> try_percentage U ps text
      | Some g \<Rightarrow>
          (case py_float U g of
             None \<Rightarrow> try_percentage U ps text
           | Some x \<Rightarrow> Some x))"

definition extract_percentage :: "unicode \<Rightarrow> pystr \<Rightarrow> rat option" where
  "extract_percentage U text = try_percentage U percentage_patterns text"



section \<open>JSON values\<close>

text \<open>
  What \<open>json.loads\<close> and \<open>response.json()\<close> return. The dataclasses of the source
  do not check the types of their fields, so a field filled from JSON holds whatever
  value the JSON had. A dictionary is the list of its items, with distinct keys.
  \<open>JFloat\<close> holds the value of the float that the parser made of the number, and
  likewise every other float of the model (a threshold ratio, a confidence) is given
  by its value.
\<close>

datatype json =
    JNull
  | JBool bool
  | JInt int
  | JFloat rat
  | JStr pystr
  | JArr "json list"
  | JObj "(pystr \<times> json) list"

text \<open>Python's truth value of an object.\<close>

fun truthy :: "json \<Rightarrow> bool" where
  "truthy JNull = False"
| "truthy (JBool b) = b"
| "truthy (JInt n) = (n \<noteq> 0)"
| "truthy (JFloat q) = (q \<noteq> 0)"
| "truthy (JStr s) = (s \<noteq> [])"
| "truthy (JArr xs) = (xs \<noteq> [])"
| "truthy (JObj kvs) = (kvs \<noteq> [])"

text \<open>The numeric value of an object that arithmetic accepts (\<open>bool\<close> is an \<open>int\<close>).\<close>

fun py_number :: "json \<Rightarrow> rat option" where
  "py_number (JBool b) = Some (if b then 1 else 0)"
| "py_number (JInt n) = Some (of_int n)"
| "py_number (JFloat q) = Some q"
| "py_number JNull = None"
| "py_number (JStr s) = None"
| "py_number (JArr xs) = None"
| "py_number (JObj kvs) = None"

text \<open>
  The float that arithmetic with a float makes of the other operand: an \<open>int\<close> is
  converted, with rounding; a JSON float is a float already.
\<close>

fun py_as_float :: "json \<Rightarrow> rat option" where
  "py_as_float (JBool b) = Some (if b then 1 else 0)"
| "py_as_float (JInt n) = Some (fl (of_int n))"
| "py_as_float (JFloat q) = Some q"
| "py_as_float JNull = None"
| "py_as_float (JStr s) = None"
| "py_as_float (JArr xs) = None"
| "py_as_float (JObj kvs) = None"

text \<open>
  \<open>a / b\<close> with a float \<open>b\<close>: the operand types are checked before the divisor, and
  the quotient is rounded.
\<close>

definition py_truediv :: "json \<Rightarrow> rat \<Rightarrow> py_error + rat" where
  "py_truediv a b =
     (case py_as_float a of
        None \<Rightarrow> Inl TypeError
      | Some x \<Rightarrow> if b = 0 then Inl ZeroDivisionError else Inr (fl (x / b)))"

text \<open>
  \<open>format(v, ",.2f")\<close> and the like: a string rejects the format code with
  \<open>ValueError\<close>, \<open>None\<close>, lists and dictionaries reject any format string with
  \<open>TypeError\<close>. The digits of the formatted text are not modelled: the result is the
  number that is formatted.
\<close>

fun py_format_f :: "json \<Rightarrow> py_error + rat" where
  "py_format_f (JBool b) = Inr (if b then 1 else 0)"
| "py_format_f (JInt n) = Inr (of_int n)"
| "py_format_f (JFloat q) = Inr q"
| "py_format_f (JStr s) = Inl ValueError"
| "py_format_f JNull = Inl TypeError"
| "py_format_f (JArr xs) = Inl TypeError"
| "py_format_f (JObj kvs) = Inl TypeError"

text \<open>\<open>obj.get(key, default)\<close>: only a dictionary has the method.\<close>

fun py_get :: "json \<Rightarrow> pystr \<Rightarrow> json \<Rightarrow> py_error + json" where
  "py_get (JObj kvs) k d = Inr (case map_of kvs k of None \<Rightarrow> d | Some v \<Rightarrow> v)"
| "py_get JNull k d = Inl AttributeError"
| "py_get (JBool b) k d = Inl AttributeError"
| "py_get (JInt n) k d = Inl AttributeError"
| "py_get (JFloat q) k d = Inl AttributeError"
| "py_get (JStr s) k d = Inl AttributeError"
| "py_get (JArr xs) k d = Inl AttributeError"

text \<open>
  \<open>for x in obj\<close>: a list gives its elements, a string its characters, a dictionary
  its keys; the other values are not iterable.
\<close>

fun py_iter :: "json \<Rightarrow> py_error + json list" where
  "py_iter (JArr xs) = Inr xs"
| "py_iter (JStr s) = Inr (map (\<lambda>c. JStr [c]) s)"
| "py_iter (JObj kvs) = Inr (map (\<lambda>kv. JStr (fst kv)) kvs)"
| "py_iter JNull = Inl TypeError"
| "py_iter (JBool b) = Inl TypeError"
| "py_iter (JInt n) = Inl TypeError"
| "py_iter (JFloat q) = Inl TypeError"

section \<open>Fact verifier (factcheck/verifier.py, factcheck/sources.py, database/models.py)\<close>

datatype FactStatus = VERIFIED | OUTDATED | FALSE | UNVERIFIED

record ExtractedClaim =
  claim :: json
  category :: json
  entities :: json
  original_text :: json
  confidence :: rat

text \<open>
  \<open>FactData\<close>, without the timestamp and the raw payload, which the verifier does not
  read. The fields carry the prefix \<open>fd_\<close>: \<open>value\<close> is a keyword of the prover and
  \<open>source\<close> is a field of the verification result.
\<close>

record FactData =
  fd_source :: pystr
  fd_query :: json
  fd_value :: json
  fd_unit :: "pystr option"

text \<open>
  The display strings of a result, by the format that produces them:
  \<open>f"${x:,.0f}"\<close>, \<open>f"${x:,.2f}"\<close>, \<open>f"{x:.1f}%"\<close>, \<open>f"~{x:.1f}%"\<close> and \<open>str(v)\<close>.
\<close>

datatype display =
    Dollars0 rat
  | Dollars2 rat
  | Percent1 rat
  | ApproxPercent1 rat
  | StrOf json

text \<open>
  The notes of a result: a fixed text, or one of the formatted notes
  \<open>f"Actual TVL differs: {ratio:.1%}"\<close>, \<open>f"Price changed: {ratio:.1%}"\<close>,
  \<open>f"Pool: {pool.get('pool', 'unknown')}"\<close>, \<open>f"Entity '{entity}' found"\<close>,
  \<open>f"Token '{entity}' found"\<close>.
\<close>

datatype result_note =
    NoteText pystr
  | TvlDiffers rat
  | PriceChanged rat
  | PoolNote json
  | EntityFound json
  | TokenFound json

record VerificationResult =
  vr_claim :: ExtractedClaim
  status :: FactStatus
  source :: "pystr option"
  verified_value :: "display option"
  original_value :: "display option"
  vr_notes :: "result_note option"

text \<open>\<open>VerifiedFact\<close>, without the database id and the creation time.\<close>

record VerifiedFact =
  video_id :: pystr
  vf_claim :: json
  vf_status :: FactStatus
  vf_source :: "pystr option"
  vf_verified_value :: "display option"

text \<open>
  The external lookups of one verification pass, as functions of the entity asked for.
  Each adapter method wraps its whole body in \<open>try ... except Exception\<close> and returns
  \<open>None\<close> (or the empty list) on any failure, so none of them raises, whatever the
  entity is.
\<close>

record Sources =
  get_protocol_tvl :: "json \<Rightarrow> FactData option"
  get_chain_tvl :: "json \<Rightarrow> FactData option"
  get_yields :: "json \<Rightarrow> json list"
  get_token_price :: "json \<Rightarrow> FactData option"

definition defillama_name :: pystr where
  "defillama_name = str ''defillama''"

definition coingecko_name :: pystr where
  "coingecko_name = str ''coingecko''"

text \<open>\<open>DefiLlamaSource.query\<close>: the protocol lookup, then the chain lookup.\<close>

definition defillama_query :: "Sources \<Rightarrow> json \<Rightarrow> FactData option" where
  "defillama_query src q =
     (case get_protocol_tvl src q of
        Some result \<Rightarrow> Some result
      | None \<Rightarrow> get_chain_tvl src q)"

definition coingecko_query :: "Sources \<Rightarrow> json \<Rightarrow> FactData option" where
  "coingecko_query src q = get_token_price src q"

text \<open>
  \<open>self._extract_number(claim.claim)\<close> and \<open>self._extract_percentage(claim.claim)\<close>
  on a field that may hold any JSON value: \<open>text.lower()\<close> exists only on a string.
\<close>

definition extract_number_of :: "unicode \<Rightarrow> json \<Rightarrow> py_error + rat option" where
  "extract_number_of U v = (case v of JStr t \<Rightarrow> Inr (extract_number U t) | _ \<Rightarrow> Inl AttributeError)"

definition extract_percentage_of :: "unicode \<Rightarrow> json \<Rightarrow> py_error + rat option" where
  "extract_percentage_of U v = (case v of JStr t \<Rightarrow> Inr (extract_percentage U t) | _ \<Rightarrow> Inl AttributeError)"

text \<open>
  \<open>_verify_tvl_claim\<close>. \<open>tvl_compare\<close> is the branch \<open>if claimed_value:\<close> of the
  entity loop, with the ratio as the conditional expression of the source,
  \<open>actual_value / claimed_value if claimed_value else 0\<close>, and the band limits as
  the floats that the literals \<open>0.8\<close> and \<open>1.2\<close> denote; \<open>tvl_exists\<close> is the code
  after that branch; \<open>tvl_found\<close> is the body of \<open>if data:\<close>, where the truth value
  of the claimed number is false for \<open>None\<close> and for \<open>0.0\<close>.
\<close>

definition tvl_compare :: "ExtractedClaim \<Rightarrow> json \<Rightarrow> rat \<Rightarrow> py_error + VerificationResult" where
  "tvl_compare c actual_value claimed_value =
     (case (if claimed_value \<noteq> 0 then py_truediv actual_value claimed_value else Inr 0) of
        Inl e \<Rightarrow> Inl e
      | Inr rt \<Rightarrow>
          (case py_format_f actual_value of
             Inl e \<Rightarrow> Inl e
           | Inr av \<Rightarrow>
               if fl (4 / 5) \<le> rt \<and> rt \<le> fl (6 / 5) then
                 Inr \<lparr>vr_claim = c, status = VERIFIED, source = Some defillama_name,
                      verified_value = Some (Dollars0 av),
                      original_value = Some (Dollars0 claimed_value),
                      vr_notes = None\<rparr>
               else
                 Inr \<lparr>vr_claim = c, status = OUTDATED, source = Some defillama_name,
                      verified_value = Some (Dollars0 av),
                      original_value = Some (Dollars0 claimed_value),
                      vr_notes = Some (TvlDiffers rt)\<rparr>))"

definition tvl_exists :: "ExtractedClaim \<Rightarrow> json \<Rightarrow> py_error + VerificationResult" where
  "tvl_exists c actual_value =
     (case py_format_f actual_value of
        Inl e \<Rightarrow> Inl e
      | Inr av \<Rightarrow>
          Inr \<lparr>vr_claim = c, status = VERIFIED, source = Some defillama_name,
               verified_value = Some (Dollars0 av), original_value = None,
               vr_notes = Some (NoteText (str ''Protocol exists, TVL confirmed''))\<rparr>)"

definition tvl_found :: "unicode \<Rightarrow> ExtractedClaim \<Rightarrow> FactData \<Rightarrow> py_error + VerificationResult" where
  "tvl_found U c data =
     (case extract_number_of U (claim c) of
        Inl e \<Rightarrow> Inl e
      | Inr None \<Rightarrow> tvl_exists c (fd_value data)
      | Inr (Some claimed_value) \<Rightarrow>
          if claimed_value \<noteq> 0 then tvl_compare c (fd_value data) claimed_value
          else tvl_exists c (fd_value data))"

fun verify_tvl_loop :: "unicode \<Rightarrow> Sources \<Rightarrow> ExtractedClaim \<Rightarrow> json list \<Rightarrow> py_error + VerificationResult" where
  "verify_tvl_loop U src c [] =
     Inr \<lparr>vr_claim = c, status = UNVERIFIED, source = None, verified_value = None,
          original_value = None,
          vr_notes = Some (NoteText (str ''Could not find protocol data''))\<rparr>"
| "verify_tvl_loop U src c (entity # es) =
     (case get_protocol_tvl src entity of
        Some data \<Rightarrow> tvl_found U c data
      | None \<Rightarrow> verify_tvl_loop U src c es)"

definition verify_tvl_claim :: "unicode \<Rightarrow> Sources \<Rightarrow> ExtractedClaim \<Rightarrow> py_error + VerificationResult" where
  "verify_tvl_claim U src c =
     (case py_iter (entities c) of
        Inl e \<Rightarrow> Inl e
      | Inr es \<Rightarrow> verify_tvl_loop U src c es)"

text \<open>\<open>_verify_price_claim\<close>, of the same shape.\<close>

definition price_compare :: "ExtractedClaim \<Rightarrow> json \<Rightarrow> rat \<Rightarrow> py_error + VerificationResult" where
  "price_compare c actual_price claimed_price =
     (case (if claimed_price \<noteq> 0 then py_truediv actual_price claimed_price else Inr 0) of
        Inl e \<Rightarrow> Inl e
      | Inr rt \<Rightarrow>
          (case py_format_f actual_price of
             Inl e \<Rightarrow> Inl e
           | Inr ap \<Rightarrow>
               if fl (9 / 10) \<le> rt \<and> rt \<le> fl (11 / 10) then
                 Inr \<lparr>vr_claim = c, status = VERIFIED, source = Some coingecko_name,
                      verified_value = Some (Dollars2 ap),
                      original_value = Some (Dollars2 claimed_price),
                      vr_notes = None\<rparr>
               else
                 Inr \<lparr>vr_claim = c, status = OUTDATED, source = Some coingecko_name,
                      verified_value = Some (Dollars2 ap),
                      original_value = Some (Dollars2 claimed_price),
                      vr_notes = Some (PriceChanged rt)\<rparr>))"

definition price_exists :: "ExtractedClaim \<Rightarrow> json \<Rightarrow> py_error + VerificationResult" where
  "price_exists c actual_price =
     (case py_format_f actual_price of
        Inl e \<Rightarrow> Inl e
      | Inr ap \<Rightarrow>
          Inr \<lparr>vr_claim = c, status = VERIFIED, source = Some coingecko_name,
               verified_value = Some (Dollars2 ap), original_value = None,
               vr_notes = None\<rparr>)"

definition price_found :: "unicode \<Rightarrow> ExtractedClaim \<Rightarrow> FactData \<Rightarrow> py_error + VerificationResult" where
  "price_found U c data =
     (case extract_number_of U (claim c) of
        Inl e \<Rightarrow> Inl e
      | Inr None \<Rightarrow> price_exists c (fd_value data)
      | Inr (Some claimed_price) \<Rightarrow>
          if claimed_price \<noteq> 0 then price_compare c (fd_value data) claimed_price
          else price_exists c (fd_value data))"

fun verify_price_loop :: "unicode \<Rightarrow> Sources \<Rightarrow> ExtractedClaim \<Rightarrow> json list \<Rightarrow> py_error + VerificationResult" where
  "verify_price_loop U src c [] =
     Inr \<lparr>vr_claim = c, status = UNVERIFIED, source = None, verified_value = None,
          original_value = None,
          vr_notes = Some (NoteText (str ''Could not find token price''))\<rparr>"
| "verify_price_loop U src c (entity # es) =
     (case get_token_price src entity of
        Some data \<Rightarrow> price_found U c data
      | None \<Rightarrow> verify_price_loop U src c es)"

definition verify_price_claim :: "unicode \<Rightarrow> Sources \<Rightarrow> ExtractedClaim \<Rightarrow> py_error + VerificationResult" where
  "verify_price_claim U src c =
     (case py_iter (entities c) of
        Inl e \<Rightarrow> Inl e
      | Inr es \<Rightarrow> verify_price_loop U src c es)"

text \<open>
  \<open>_verify_yield_claim\<close>. The inner loop runs over \<open>pools[:10]\<close> and returns the
  result of the first pool whose APY is within the band, or nothing.
\<close>

fun yield_pools_loop :: "ExtractedClaim \<Rightarrow> rat option \<Rightarrow> json list \<Rightarrow> py_error + VerificationResult option" where
  "yield_pools_loop c claimed_apy [] = Inr None"
| "yield_pools_loop c claimed_apy (pool # pools) =
     (case py_get pool (str ''apy'') (JInt 0) of
        Inl e \<Rightarrow> Inl e
      | Inr pool_apy \<Rightarrow>
          (case claimed_apy of
             None \<Rightarrow> yield_pools_loop c claimed_apy pools
           | Some ca \<Rightarrow>
               if truthy pool_apy \<and> ca \<noteq> 0 then
                 (case (if ca \<noteq> 0 then py_truediv pool_apy ca else Inr 0) of
                    Inl e \<Rightarrow> Inl e
                  | Inr rt \<Rightarrow>
                      if fl (7 / 10) \<le> rt \<and> rt \<le> fl (13 / 10) then
                        (case py_format_f pool_apy of
                           Inl e \<Rightarrow> Inl e
                         | Inr pa \<Rightarrow>
                             (case py_get pool (str ''pool'') (JStr (str ''unknown'')) of
                                Inl e \<Rightarrow> Inl e
                              | Inr pool_name \<Rightarrow>
                                  Inr (Some \<lparr>vr_claim = c, status = VERIFIED,
                                             source = Some defillama_name,
                                             verified_value = Some (Percent1 pa),
                                             original_value = Some (Percent1 ca),
                                             vr_notes = Some (PoolNote pool_name)\<rparr>)))
                      else yield_pools_loop c claimed_apy pools)
               else yield_pools_loop c claimed_apy pools))"

text \<open>
  \<open>sum(p.get("apy", 0) for p in pools[:5])\<close>, starting from the integer 0. The sum and
  the average below are kept exact: they reach only the display string of the result,
  whose digits are not modelled.
\<close>

fun sum_apy :: "rat \<Rightarrow> json list \<Rightarrow> py_error + rat" where
  "sum_apy acc [] = Inr acc"
| "sum_apy acc (p # ps) =
     (case py_get p (str ''apy'') (JInt 0) of
        Inl e \<Rightarrow> Inl e
      | Inr v \<Rightarrow>
          (case py_number v of
             None \<Rightarrow> Inl TypeError
           | Some x \<Rightarrow> sum_apy (acc + x) ps))"

definition py_div_num :: "rat \<Rightarrow> rat \<Rightarrow> py_error + rat" where
  "py_div_num a b = (if b = 0 then Inl ZeroDivisionError else Inr (a / b))"

text \<open>The code after the inner loop: \<open>if pools and claimed_apy:\<close> and its average.\<close>

definition yield_outdated :: "ExtractedClaim \<Rightarrow> json list \<Rightarrow> rat \<Rightarrow> py_error + VerificationResult" where
  "yield_outdated c pools ca =
     (case sum_apy 0 (take 5 pools) of
        Inl e \<Rightarrow> Inl e
      | Inr apy_sum \<Rightarrow>
          (case py_div_num apy_sum (of_nat (min 5 (length pools))) of
             Inl e \<Rightarrow> Inl e
           | Inr avg_apy \<Rightarrow>
               Inr \<lparr>vr_claim = c, status = OUTDATED, source = Some defillama_name,
                    verified_value = Some (ApproxPercent1 avg_apy),
                    original_value = Some (Percent1 ca),
                    vr_notes = Some (NoteText (str ''APY may have changed''))\<rparr>))"

fun verify_yield_loop :: "unicode \<Rightarrow> Sources \<Rightarrow> ExtractedClaim \<Rightarrow> json list \<Rightarrow> py_error + VerificationResult" where
  "verify_yield_loop U src c [] =
     Inr \<lparr>vr_claim = c, status = UNVERIFIED, source = None, verified_value = None,
          original_value = None,
          vr_notes = Some (NoteText (str ''Could not verify yield data''))\<rparr>"
| "verify_yield_loop U src c (entity # es) =
     (if get_yields src entity \<noteq> [] then
        (case extract_percentage_of U (claim c) of
           Inl e \<Rightarrow> Inl e
         | Inr claimed_apy \<Rightarrow>
             (case yield_pools_loop c claimed_apy (take 10 (get_yields src entity)) of
                Inl e \<Rightarrow> Inl e
              | Inr (Some r) \<Rightarrow> Inr r
              | Inr None \<Rightarrow>
                  (case claimed_apy of
                     None \<Rightarrow> verify_yield_loop U src c es
                   | Some ca \<Rightarrow>
                       if get_yields src entity \<noteq> [] \<and> ca \<noteq> 0
                       then yield_outdated c (get_yields src entity) ca
                       else verify_yield_loop U src c es)))
      else verify_yield_loop U src c es)"

definition verify_yield_claim :: "unicode \<Rightarrow> Sources \<Rightarrow> ExtractedClaim \<Rightarrow> py_error + VerificationResult" where
  "verify_yield_claim U src c =
     (case py_iter (entities c) of
        Inl e \<Rightarrow> Inl e
      | Inr es \<Rightarrow> verify_yield_loop U src c es)"

text \<open>\<open>_verify_general_claim\<close>: each entity against both sources.\<close>

fun verify_general_loop :: "Sources \<Rightarrow> ExtractedClaim \<Rightarrow> json list \<Rightarrow> py_error + VerificationResult" where
  "verify_general_loop src c [] =
     Inr \<lparr>vr_claim = c, status = UNVERIFIED, source = None, verified_value = None,
          original_value = None,
          vr_notes = Some (NoteText (str ''No matching data found''))\<rparr>"
| "verify_general_loop src c (entity # es) =
     (case defillama_query src entity of
        Some data \<Rightarrow>
          Inr \<lparr>vr_claim = c, status = VERIFIED, source = Some defillama_name,
               verified_value = Some (StrOf (fd_value data)), original_value = None,
               vr_notes = Some (EntityFound entity)\<rparr>
      | None \<Rightarrow>
          (case coingecko_query src entity of
             Some data \<Rightarrow>
               (case py_format_f (fd_value data) of
                  Inl e \<Rightarrow> Inl e
                | Inr v \<Rightarrow>
                    Inr \<lparr>vr_claim = c, status = VERIFIED, source = Some coingecko_name,
                         verified_value = Some (Dollars2 v), original_value = None,
                         vr_notes = Some (TokenFound entity)\<rparr>)
           | None \<Rightarrow> verify_general_loop src c es))"

definition verify_general_claim :: "Sources \<Rightarrow> ExtractedClaim \<Rightarrow> py_error + VerificationResult" where
  "verify_general_claim src c =
     (case py_iter (entities c) of
        Inl e \<Rightarrow> Inl e
      | Inr es \<Rightarrow> verify_general_loop src c es)"

definition verify_single_claim :: "unicode \<Rightarrow> Sources \<Rightarrow> ExtractedClaim \<Rightarrow> py_error + VerificationResult" where
  "verify_single_claim U src c =
     (if category c = JStr (str ''tvl'') then verify_tvl_claim U src c
      else if category c = JStr (str ''price'') then verify_price_claim U src c
      else if category c = JStr (str ''percentage'') then verify_yield_claim U src c
      else verify_general_claim src c)"

section \<open>Claim extractor (factcheck/claim\_extractor.py)\<close>

text \<open>
  \<open>float(x)\<close> on a JSON value. Python's conversion of an arbitrary string is a
  parameter, \<open>str_float\<close>, which returns \<open>None\<close> where Python raises
  \<open>ValueError\<close>; \<open>None\<close>, lists and dictionaries raise \<open>TypeError\<close>.
\<close>

fun py_float_of :: "(pystr \<Rightarrow> rat option) \<Rightarrow> json \<Rightarrow> py_error + rat" where
  "py_float_of str_float (JBool b) = Inr (if b then 1 else 0)"
| "py_float_of str_float (JInt n) = Inr (fl (of_int n))"
| "py_float_of str_float (JFloat q) = Inr q"
| "py_float_of str_float (JStr s) =
     (case str_float s of None \<Rightarrow> Inl ValueError | Some x \<Rightarrow> Inr x)"
| "py_float_of str_float JNull = Inl TypeError"
| "py_float_of str_float (JArr xs) = Inl TypeError"
| "py_float_of str_float (JObj kvs) = Inl TypeError"

text \<open>
  The construction of one \<open>ExtractedClaim\<close> from an item: five \<open>item.get\<close> calls in
  the order of the keyword arguments, and the conversion of the confidence.
\<close>

definition coerce_item :: "(pystr \<Rightarrow> rat option) \<Rightarrow> json \<Rightarrow> py_error + ExtractedClaim" where
  "coerce_item str_float item =
     (case py_get item (str ''claim'') (JStr []) of
        Inl e \<Rightarrow> Inl e
      | Inr cl \<Rightarrow>
     (case py_get item (str ''category'') (JStr (str ''other'')) of
        Inl e \<Rightarrow> Inl e
      | Inr cat \<Rightarrow>
     (case py_get item (str ''entities'') (JArr []) of
        Inl e \<Rightarrow> Inl e
      | Inr ents \<Rightarrow>
     (case py_get item (str ''original_text'') (JStr []) of
        Inl e \<Rightarrow> Inl e
      | Inr orig \<Rightarrow>
     (case py_get item (str ''confidence'') (JFloat (1 / 2)) of
        Inl e \<Rightarrow> Inl e
      | Inr cf \<Rightarrow>
     (case py_float_of str_float cf of
        Inl e \<Rightarrow> Inl e
      | Inr x \<Rightarrow>
          Inr \<lparr>claim = cl, category = cat, entities = ents, original_text = orig,
               confidence = x\<rparr>))))))"

text \<open>The filter \<open>if claim.claim and claim.confidence >= 0.5\<close>.\<close>

definition keep_claim :: "ExtractedClaim \<Rightarrow> bool" where
  "keep_claim c = (truthy (claim c) \<and> 1 / 2 \<le> confidence c)"

text \<open>
  The loop over the items. \<open>except (KeyError, ValueError)\<close> logs a warning and goes on
  with the next item; any other exception leaves the loop.
\<close>

fun collect_claims :: "(pystr \<Rightarrow> rat option) \<Rightarrow> json list \<Rightarrow> py_error + ExtractedClaim list" where
  "collect_claims str_float [] = Inr []"
| "collect_claims str_float (item # items) =
     (case coerce_item str_float item of
        Inl ValueError \<Rightarrow> collect_claims str_float items
      | Inl KeyError \<Rightarrow> collect_claims str_float items
      | Inl e \<Rightarrow> Inl e
      | Inr c \<Rightarrow>
          (case collect_claims str_float items of
             Inl e \<Rightarrow> Inl e
           | Inr cs \<Rightarrow> Inr (if keep_claim c then c # cs else cs)))"

text \<open>The slice \<open>xs[:n]\<close>; a negative \<open>n\<close> counts from the end.\<close>

definition py_slice_to :: "'a list \<Rightarrow> int \<Rightarrow> 'a list" where
  "py_slice_to xs n = (if 0 \<le> n then take (nat n) xs else take (length xs - nat (- n)) xs)"

text \<open>
  Membership in the set \<open>{c.category for c in claims}\<close> that the final log call builds
  needs a hashable value: lists and dictionaries are not.
\<close>

fun hashable :: "json \<Rightarrow> bool" where
  "hashable (JArr xs) = False"
| "hashable (JObj kvs) = False"
| "hashable v = True"

text \<open>
  \<open>extract_claims\<close>. The generative collaborator and \<open>_parse_json_response\<close> together
  are the parameter \<open>llm\<close>: from the text sent, the list \<open>claims_data\<close>, or the
  exception of a failed call. Whatever is raised inside the \<open>try\<close> ends in
  \<open>except Exception: return []\<close>.
\<close>

definition extract_claims ::
  "(pystr \<Rightarrow> rat option) \<Rightarrow> (pystr \<Rightarrow> py_error + json list) \<Rightarrow> pystr \<Rightarrow> int \<Rightarrow> ExtractedClaim list" where
  "extract_claims str_float llm text max_claims =
     (if text = [] \<or> length text < 50 then []
      else
        (case llm (if 15000 < length text then take 15000 text @ str ''...'' else text) of
           Inl e \<Rightarrow> []
         | Inr claims_data \<Rightarrow>
             (case collect_claims str_float (py_slice_to claims_data max_claims) of
                Inl e \<Rightarrow> []
              | Inr claims \<Rightarrow>
                  if list_all (\<lambda>c. hashable (category c)) claims then claims else [])))"

text \<open>
  The reading of the specification: filter all items first, then truncate the survivors
  to \<open>max_claims\<close>.
\<close>

definition spec_filter_then_truncate ::
  "(pystr \<Rightarrow> rat option) \<Rightarrow> json list \<Rightarrow> int \<Rightarrow> ExtractedClaim list" where
  "spec_filter_then_truncate str_float claims_data max_claims =
     py_slice_to
       (filter keep_claim
          (concat (map (\<lambda>item. case coerce_item str_float item of
                                  Inl e \<Rightarrow> [] | Inr c \<Rightarrow> [c]) claims_data)))
       max_claims"

section \<open>The verification pass (factcheck/verifier.py, verify\_claims)\<close>

text \<open>
  The log call of the loop slices the claim, \<open>claim.claim[:50]\<close>: strings and lists
  can be sliced, other values raise.
\<close>

fun py_slice_check :: "json \<Rightarrow> py_error + unit" where
  "py_slice_check (JStr s) = Inr ()"
| "py_slice_check (JArr xs) = Inr ()"
| "py_slice_check v = Inl TypeError"

fun verify_each :: "unicode \<Rightarrow> Sources \<Rightarrow> pystr \<Rightarrow> ExtractedClaim list \<Rightarrow> py_error + VerifiedFact list" where
  "verify_each U src vid [] = Inr []"
| "verify_each U src vid (c # cs) =
     (case verify_single_claim U src c of
        Inl e \<Rightarrow> Inl e
      | Inr result \<Rightarrow>
          (case py_slice_check (claim c) of
             Inl e \<Rightarrow> Inl e
           | Inr u \<Rightarrow>
               (case verify_each U src vid cs of
                  Inl e \<Rightarrow> Inl e
                | Inr facts \<Rightarrow>
                    Inr (\<lparr>video_id = vid, vf_claim = claim c, vf_status = status result,
                          vf_source = source result,
                          vf_verified_value = verified_value result\<rparr> # facts))))"

definition verify_claims ::
  "unicode \<Rightarrow> Sources \<Rightarrow> (pystr \<Rightarrow> rat option) \<Rightarrow> (pystr \<Rightarrow> py_error + json list) \<Rightarrow> pystr \<Rightarrow> pystr
     \<Rightarrow> py_error + VerifiedFact list" where
  "verify_claims U src str_float llm transcript_text vid =
     (let claims = extract_claims str_float llm transcript_text 20
      in if claims = [] then Inr [] else verify_each U src vid claims)"

section \<open>Auxiliary notions for the statements\<close>

text \<open>
  The first entity of a list for which a lookup returns data, with that data: what an
  entity loop with its early return finds.
\<close>

fun first_data :: "(json \<Rightarrow> 'a option) \<Rightarrow> json list \<Rightarrow> (json \<times> 'a) option" where
  "first_data f [] = None"
| "first_data f (e # es) = (case f e of Some d \<Rightarrow> Some (e, d) | None \<Rightarrow> first_data f es)"

text \<open>
  The lookup of the generic path for one entity: DefiLlama first (\<open>True\<close>), then
  CoinGecko (\<open>False\<close>).
\<close>

definition general_lookup :: "Sources \<Rightarrow> json \<Rightarrow> (bool \<times> FactData) option" where
  "general_lookup src e =
     (case defillama_query src e of
        Some d \<Rightarrow> Some (True, d)
      | None \<Rightarrow> (case coingecko_query src e of Some d \<Rightarrow> Some (False, d) | None \<Rightarrow> None))"

text \<open>The result every path of \<open>_verify_yield_claim\<close> ends with when no pool decided.\<close>

definition unverified_yield :: "ExtractedClaim \<Rightarrow> VerificationResult" where
  "unverified_yield c = 
     \<lparr>vr_claim = c, status = UNVERIFIED, source = None, verified_value = None,
          original_value = None,
          vr_notes = Some (NoteText (str ''Could not verify yield data''))\<rparr>"

fun is_dict :: "json \<Rightarrow> bool" where
  "is_dict (JObj kvs) = True"
| "is_dict v = False"

text \<open>
  What one item contributes to the result of the extractor, and the items on which the
  loop goes on: those that build a claim or fail with an exception that the loop catches.
\<close>

definition item_claims :: "(pystr \<Rightarrow> rat option) \<Rightarrow> json \<Rightarrow> ExtractedClaim list" where
  "item_claims str_float item =
     (case coerce_item str_float item of
        Inl e \<Rightarrow> []
      | Inr c \<Rightarrow> if keep_claim c then [c] else [])"

definition no_fatal_error :: "(pystr \<Rightarrow> rat option) \<Rightarrow> json \<Rightarrow> bool" where
  "no_fatal_error str_float item =
     (case coerce_item str_float item of
        Inl ValueError \<Rightarrow> True
      | Inl KeyError \<Rightarrow> True
      | Inl e \<Rightarrow> False
      | Inr c \<Rightarrow> True)"

text \<open>
  The Unicode data on ASCII text: \<open>str.lower\<close> maps the capitals A to Z and nothing
  else, and the decimal digits are 0 to 9. \<open>ascii_tables\<close> says that a table agrees
  with this on ASCII; \<open>ascii_only\<close> is the table that knows nothing else.
\<close>

definition ascii_lower :: "nat \<Rightarrow> nat" where
  "ascii_lower c = (if 65 \<le> c \<and> c \<le> 90 then c + 32 else c)"

definition ascii_digit :: "nat \<Rightarrow> nat option" where
  "ascii_digit c = (if 48 \<le> c \<and> c \<le> 57 then Some (c - 48) else None)"


definition ascii_only :: unicode where
  "ascii_only = \<lparr>str_lower = map ascii_lower, decimal_value = ascii_digit\<rparr>"

text \<open>Concrete inputs for the examples: one JSON item, one claim, stub adapters, a transcript.\<close>

definition example_item :: "pystr \<Rightarrow> pystr \<Rightarrow> rat \<Rightarrow> json" where
  "example_item cl cat conf =
     JObj [(str ''claim'', JStr cl), (str ''category'', JStr cat),
           (str ''entities'', JArr [JStr (str ''Aave'')]),
           (str ''original_text'', JStr cl), (str ''confidence'', JFloat conf)]"

definition example_claim :: "pystr \<Rightarrow> pystr \<Rightarrow> ExtractedClaim" where
  "example_claim cl cat =
     \<lparr>claim = JStr cl, category = JStr cat, entities = JArr [JStr (str ''Aave'')],
      original_text = JStr cl, confidence = 7 / 8\<rparr>"

definition example_sources :: "json \<Rightarrow> json list \<Rightarrow> Sources" where
  "example_sources observed pools =
     \<lparr>get_protocol_tvl = (\<lambda>e. if e = JStr (str ''Aave'')
          then Some \<lparr>fd_source = defillama_name, fd_query = e, fd_value = observed,
                      fd_unit = Some (str ''USD'')\<rparr>
          else None),
      get_chain_tvl = (\<lambda>e. None),
      get_yields = (\<lambda>e. if e = JStr (str ''Aave'') then pools else []),
      get_token_price = (\<lambda>e. if e = JStr (str ''Aave'')
          then Some \<lparr>fd_source = coingecko_name, fd_query = e, fd_value = observed,
                      fd_unit = Some (str ''USD'')\<rparr>
          else None)\<rparr>"

definition example_transcript :: pystr where
  "example_transcript = str ''Aave TVL is $10 billion according to the latest dashboard numbers''"

section \<open>Properties of float rounding\<close>

lemma pow2_powi: "pow2 k = 2 powi k"
  by (simp add: pow2_def power_int_def inverse_eq_divide power_one_over)

lemma pow2_pos: "0 < pow2 k"
  by (simp add: pow2_powi)

lemma pow2_diff: "pow2 (a - b) = pow2 a / pow2 b"
  by (simp add: pow2_powi power_int_diff)

lemma round_half_even_bounds: "\<bar>of_int (round_half_even x) - x\<bar> \<le> 1 / 2"
  unfolding round_half_even_def Let_def
  by (auto simp: abs_if not_less) linarith+

lemma round_half_even_decimals:
  "\<bar>of_int (round_half_even (x * 1000)) / 1000 - x\<bar> \<le> 1 / 2000"
proof -
  have "\<bar>of_int (round_half_even (x * 1000)) - x * 1000\<bar> \<le> 1 / 2"
    by (rule round_half_even_bounds)
  then have "\<bar>(of_int (round_half_even (x * 1000)) - x * 1000) / 1000\<bar> \<le> (1 / 2) / 1000"
    by (simp only: abs_divide) simp
  then show ?thesis
    by (simp add: diff_divide_distrib)
qed

lemma float_exponent_lower:
  assumes "x \<noteq> 0"
  shows "pow2 (float_exponent x) \<le> \<bar>x\<bar>"
proof (cases "1 \<le> \<bar>x\<bar>")
  case True
  define n where "n = \<lfloor>\<bar>x\<bar>\<rfloor>"
  from True have n: "0 < n" by (simp add: n_def)
  from True have e: "float_exponent x = bitlen n - 1"
    by (simp add: float_exponent_def n_def)
  from n have "1 \<le> bitlen n"
    using bitlen_eq_zero_iff [of n] bitlen_nonneg [of n] by linarith
  then have "pow2 (bitlen n - 1) = 2 ^ nat (bitlen n - 1)"
    by (simp add: pow2_def)
  also have "\<dots> \<le> of_int n"
    using bitlen_bounds [OF n]
    by (metis of_int_le_iff of_int_numeral of_int_power)
  also have "\<dots> \<le> \<bar>x\<bar>" by (simp add: n_def)
  finally show ?thesis by (simp add: e)
next
  case False
  define a where "a = \<bar>x\<bar>"
  from False assms have a: "0 < a" "a < 1" by (simp_all add: a_def)
  define m where "m = \<lceil>1 / a\<rceil> - 1"
  from a have "1 < 1 / a" by simp
  then have "2 \<le> \<lceil>1 / a\<rceil>" by linarith
  then have m: "0 < m" by (simp add: m_def)
  from False have e: "float_exponent x = - bitlen m"
    by (simp add: float_exponent_def m_def a_def)
  have k: "0 \<le> bitlen m" by (rule bitlen_nonneg)
  have "1 / a \<le> of_int (m + 1)" by (simp add: m_def)
  also have "m + 1 \<le> 2 ^ nat (bitlen m)"
    using bitlen_bounds [OF m] by linarith
  then have "(of_int (m + 1) :: rat) \<le> 2 ^ nat (bitlen m)"
    by (metis of_int_le_iff of_int_numeral of_int_power)
  finally have "1 / a \<le> 2 ^ nat (bitlen m)" .
  with a have "1 / 2 ^ nat (bitlen m) \<le> a"
    by (simp add: field_simps)
  moreover have "pow2 (- bitlen m) = 1 / 2 ^ nat (bitlen m)"
    using k by (auto simp: pow2_def)
  ultimately show ?thesis by (simp add: e a_def)
qed

lemma float_exponent_upper:
  assumes "x \<noteq> 0"
  shows "\<bar>x\<bar> < 2 * pow2 (float_exponent x)"
proof (cases "1 \<le> \<bar>x\<bar>")
  case True
  define n where "n = \<lfloor>\<bar>x\<bar>\<rfloor>"
  from True have n: "0 < n" by (simp add: n_def)
  from True have e: "float_exponent x = bitlen n - 1"
    by (simp add: float_exponent_def n_def)
  from n have b: "1 \<le> bitlen n"
    using bitlen_eq_zero_iff [of n] bitlen_nonneg [of n] by linarith
  have "n + 1 \<le> 2 ^ nat (bitlen n)"
    using bitlen_bounds [OF n] by linarith
  then have "(of_int (n + 1) :: rat) \<le> 2 ^ nat (bitlen n)"
    by (metis of_int_le_iff of_int_numeral of_int_power)
  moreover have "\<bar>x\<bar> < of_int (n + 1)"
    unfolding n_def by linarith
  moreover from b have "nat (bitlen n) = Suc (nat (bitlen n - 1))" by simp
  then have "(2::rat) ^ nat (bitlen n) = 2 * 2 ^ nat (bitlen n - 1)" by simp
  moreover from b have "pow2 (bitlen n - 1) = 2 ^ nat (bitlen n - 1)"
    by (simp add: pow2_def)
  ultimately show ?thesis by (simp add: e)
next
  case False
  define a where "a = \<bar>x\<bar>"
  from False assms have a: "0 < a" "a < 1" by (simp_all add: a_def)
  define m where "m = \<lceil>1 / a\<rceil> - 1"
  from a have "1 < 1 / a" by simp
  then have "2 \<le> \<lceil>1 / a\<rceil>" by linarith
  then have m: "0 < m" by (simp add: m_def)
  from False have e: "float_exponent x = - bitlen m"
    by (simp add: float_exponent_def m_def a_def)
  from m have b: "1 \<le> bitlen m"
    using bitlen_eq_zero_iff [of m] bitlen_nonneg [of m] by linarith
  have "2 ^ nat (bitlen m - 1) \<le> m"
    using bitlen_bounds [OF m] by simp
  then have "(2::rat) ^ nat (bitlen m - 1) \<le> of_int m"
    by (metis of_int_le_iff of_int_numeral of_int_power)
  also have "of_int m < 1 / a"
    using less_ceiling_iff [of m "1 / a"] by (simp add: m_def)
  finally have "(2::rat) ^ nat (bitlen m - 1) < 1 / a" .
  with a have "a * 2 ^ nat (bitlen m - 1) < 1"
    by (simp add: field_simps)
  moreover from b have "nat (bitlen m) = Suc (nat (bitlen m - 1))" by simp
  then have "(2::rat) ^ nat (bitlen m) = 2 * 2 ^ nat (bitlen m - 1)" by simp
  ultimately have "a * 2 ^ nat (bitlen m) < 2" by simp
  then have "a < 2 * (1 / 2 ^ nat (bitlen m))"
    by (simp add: field_simps)
  moreover have "pow2 (- bitlen m) = 1 / 2 ^ nat (bitlen m)"
    using b by (auto simp: pow2_def)
  ultimately show ?thesis by (simp add: e a_def)
qed

text \<open>Rounding to binary64 changes a number by at most one part in \<open>2 ^ 53\<close>.\<close>

lemma fl_error: "\<bar>fl x - x\<bar> \<le> \<bar>x\<bar> / 2 ^ 53"
proof (cases "x = 0")
  case True
  then show ?thesis by (simp add: fl_def)
next
  case False
  define q where "q = pow2 (float_exponent x - 52)"
  have q: "0 < q" by (simp add: q_def pow2_pos)
  have "fl x - x = (of_int (round_half_even (x / q)) - x / q) * q"
    using False q by (simp add: fl_def q_def [symmetric] Let_def field_simps)
  then have "\<bar>fl x - x\<bar> = \<bar>of_int (round_half_even (x / q)) - x / q\<bar> * q"
    using q by (simp add: abs_mult)
  also have "\<dots> \<le> (1 / 2) * q"
    using round_half_even_bounds [of "x / q"] q by (intro mult_right_mono) auto
  also have "q = pow2 (float_exponent x) / 2 ^ 52"
  proof -
    have "pow2 52 = 2 ^ 52" by (simp add: pow2_def)
    then show ?thesis by (simp only: q_def pow2_diff)
  qed
  also have "(1 / 2) * (pow2 (float_exponent x) / 2 ^ 52) = pow2 (float_exponent x) / 2 ^ 53"
    by simp
  also have "\<dots> \<le> \<bar>x\<bar> / 2 ^ 53"
    using float_exponent_lower [OF False] by (simp add: divide_right_mono)
  finally show ?thesis .
qed

text \<open>The rounded number has a significand of at most 53 bits at the exponent of the number.\<close>

lemma fl_significand:
  assumes "x \<noteq> 0"
  shows "\<exists>m. fl x = of_int m * pow2 (float_exponent x - 52) \<and> \<bar>m\<bar> \<le> 2 ^ 53"
proof -
  define q where "q = pow2 (float_exponent x - 52)"
  have q: "0 < q" by (simp add: q_def pow2_pos)
  have qe: "q = pow2 (float_exponent x) / 2 ^ 52"
  proof -
    have "pow2 52 = 2 ^ 52" by (simp add: pow2_def)
    then show ?thesis by (simp only: q_def pow2_diff)
  qed
  have "\<bar>x\<bar> < 2 * pow2 (float_exponent x)"
    using assms by (rule float_exponent_upper)
  also have "\<dots> = 2 ^ 53 * q" by (simp add: qe)
  finally have "\<bar>x\<bar> / q < 2 ^ 53"
    using q by (simp add: field_simps)
  then have y: "\<bar>x / q\<bar> < 2 ^ 53" using q by simp
  define m where "m = round_half_even (x / q)"
  have "\<bar>of_int m - x / q\<bar> \<le> 1 / 2"
    unfolding m_def by (rule round_half_even_bounds)
  with y have "\<bar>(of_int m :: rat)\<bar> < 2 ^ 53 + 1" by linarith
  then have "\<bar>(of_int m :: rat)\<bar> < of_int (2 ^ 53 + 1)" by simp
  then have "(of_int \<bar>m\<bar> :: rat) < of_int (2 ^ 53 + 1)" by simp
  then have "\<bar>m\<bar> < 2 ^ 53 + 1" by (simp only: of_int_less_iff)
  then have "\<bar>m\<bar> \<le> 2 ^ 53" by simp
  moreover have "fl x = of_int m * q"
    using assms by (simp add: fl_def q_def m_def Let_def)
  ultimately show ?thesis unfolding q_def by blast
qed



lemma fl_zero: "fl 0 = 0"
  by (simp add: fl_def)



section \<open>Properties of the virality checker\<close>

text \<open>
  Claim C1, as stated, fails: \<open>max_subs\<close> is optional, and with the breakpoint of the
  small tier left at \<open>None\<close> the comparison of the subscribers with it raises
  \<open>TypeError\<close>; no result is returned for 100 views on 10 subscribers.
\<close>

theorem check_virality_unconfigured_counterexample:
  "(0::int) \<le> 100 \<and> (0::int) < 10
   \<and> check_virality
        \<lparr>small = \<lparr>max_subs = None, ratio = 3 / 2\<rparr>,
         medium = \<lparr>max_subs = Some 50000, ratio = 1\<rparr>,
         large = \<lparr>max_subs = None, ratio = 1 / 4\<rparr>\<rparr> 100 10 = Inl TypeError"
  by (simp add: check_virality_def get_channel_category_def)

text \<open>
  Claim C1, amended. For views \<open>v \<ge> 0\<close> and subscribers \<open>s > 0\<close>, when the breakpoint
  of the small tier is configured and, for \<open>s\<close> above it, that of the medium tier:
  \<open>check_virality\<close> returns the result whose category is \<open>small\<close> for
  \<open>s \<le> small.max_subs\<close>, else \<open>medium\<close> for \<open>s \<le> medium.max_subs\<close>, else
  \<open>large\<close>; whose threshold is the ratio configured for that category; whose
  \<open>is_viral\<close> holds exactly when the float quotient \<open>v / s\<close> reaches that ratio; and
  whose score is that quotient rounded to three decimals as \<open>round\<close> does it (the
  float nearest to the multiple of 1/1000 nearest to the quotient, ties to even). The
  quotient is within one part in \<open>2 ^ 53\<close> of the exact \<open>v / s\<close>, and the decimal
  within 1/2000 of the quotient. With a needed breakpoint at \<open>None\<close> the call raises
  \<open>TypeError\<close>. The operation is a function of its arguments: it has no state to
  change.
\<close>

theorem check_virality_positive:
  assumes "0 \<le> v" and "0 < s"
  shows "check_virality th v s =
     (case max_subs (small th) of
        None \<Rightarrow> Inl TypeError
      | Some a \<Rightarrow>
          if s \<le> a then
            Inr \<lparr>is_viral = (ratio (small th) \<le> fl (of_int v / of_int s)),
                 score = fl (of_int (round_half_even (fl (of_int v / of_int s) * 1000)) / 1000),
                 threshold_used = ratio (small th), channel_category = str ''small'',
                 views = v, subscribers = s\<rparr>
          else
            (case max_subs (medium th) of
               None \<Rightarrow> Inl TypeError
             | Some b \<Rightarrow>
                 if s \<le> b then
                   Inr \<lparr>is_viral = (ratio (medium th) \<le> fl (of_int v / of_int s)),
                        score = fl (of_int (round_half_even (fl (of_int v / of_int s) * 1000)) / 1000),
                        threshold_used = ratio (medium th), channel_category = str ''medium'',
                        views = v, subscribers = s\<rparr>
                 else
                   Inr \<lparr>is_viral = (ratio (large th) \<le> fl (of_int v / of_int s)),
                        score = fl (of_int (round_half_even (fl (of_int v / of_int s) * 1000)) / 1000),
                        threshold_used = ratio (large th), channel_category = str ''large'',
                        views = v, subscribers = s\<rparr>))
   \<and> \<bar>fl (of_int v / of_int s) - of_int v / of_int s\<bar> \<le> (of_int v / of_int s) / 2 ^ 53
   \<and> \<bar>of_int (round_half_even (fl (of_int v / of_int s) * 1000)) / 1000 - fl (of_int v / of_int s)\<bar>
        \<le> 1 / 2000"
proof (intro conjI)
  have neq: "str ''medium'' \<noteq> str ''small''" "str ''large'' \<noteq> str ''small''"
    "str ''large'' \<noteq> str ''medium''"
    by (simp_all add: str_def)
  show "check_virality th v s =
     (case max_subs (small th) of
        None \<Rightarrow> Inl TypeError
      | Some a \<Rightarrow>
          if s \<le> a then
            Inr \<lparr>is_viral = (ratio (small th) \<le> fl (of_int v / of_int s)),
                 score = fl (of_int (round_half_even (fl (of_int v / of_int s) * 1000)) / 1000),
                 threshold_used = ratio (small th), channel_category = str ''small'',
                 views = v, subscribers = s\<rparr>
          else
            (case max_subs (medium th) of
               None \<Rightarrow> Inl TypeError
             | Some b \<Rightarrow>
                 if s \<le> b then
                   Inr \<lparr>is_viral = (ratio (medium th) \<le> fl (of_int v / of_int s)),
                        score = fl (of_int (round_half_even (fl (of_int v / of_int s) * 1000)) / 1000),
                        threshold_used = ratio (medium th), channel_category = str ''medium'',
                        views = v, subscribers = s\<rparr>
                 else
                   Inr \<lparr>is_viral = (ratio (large th) \<le> fl (of_int v / of_int s)),
                        score = fl (of_int (round_half_even (fl (of_int v / of_int s) * 1000)) / 1000),
                        threshold_used = ratio (large th), channel_category = str ''large'',
                        views = v, subscribers = s\<rparr>))"
    using assms(2) neq
    by (simp add: check_virality_def get_channel_category_def get_threshold_ratio_def
        py_int_truediv_def py_round_def Let_def split: option.splits)
  have "0 \<le> (of_int v / of_int s :: rat)"
    using assms by simp
  with fl_error [of "of_int v / of_int s"]
  show "\<bar>fl (of_int v / of_int s) - of_int v / of_int s\<bar> \<le> (of_int v / of_int s) / 2 ^ 53"
    by simp
  show "\<bar>of_int (round_half_even (fl (of_int v / of_int s) * 1000)) / 1000 - fl (of_int v / of_int s)\<bar>
        \<le> 1 / 2000"
    by (rule round_half_even_decimals)
qed

lemma check_3127:
  "check_virality default_thresholds 3127 2000 =
     Inr \<lparr>is_viral = True, score = 7039126217580085 / 4503599627370496,
          threshold_used = 3 / 2, channel_category = str ''small'',
          views = 3127, subscribers = 2000\<rparr>"
  by code_simp

theorem check_virality_positive_witness:
  "check_virality default_thresholds 3127 2000 =
     Inr \<lparr>is_viral = True, score = 7039126217580085 / 4503599627370496,
          threshold_used = 3 / 2, channel_category = str ''small'',
          views = 3127, subscribers = 2000\<rparr>
   \<and> \<bar>fl (of_int 3127 / of_int 2000) - of_int 3127 / of_int 2000\<bar>
        \<le> (of_int 3127 / of_int 2000) / 2 ^ 53"
proof -
  have v: "(0::int) \<le> 3127" and s: "(0::int) < 2000" by simp_all
  from check_virality_positive [OF v s, of default_thresholds]
  have "\<bar>fl (of_int 3127 / of_int 2000) - of_int 3127 / of_int 2000\<bar>
        \<le> (of_int 3127 / of_int 2000) / 2 ^ 53"
    by blast
  with check_3127 show ?thesis by blast
qed

text \<open>
  Claim C7. For any views count and any subscribers count \<open>s \<le> 0\<close>,
  \<open>check_virality\<close> returns normally (no exception) the result with
  \<open>is_viral = False\<close>, score 0, threshold 0 and category \<open>unknown\<close>; the
  thresholds are not consulted.
\<close>

theorem check_virality_no_subscribers:
  "s \<le> 0 \<Longrightarrow>
   check_virality th v s =
     Inr \<lparr>is_viral = False, score = 0, threshold_used = 0,
          channel_category = str ''unknown'', views = v, subscribers = s\<rparr>"
  by (simp add: check_virality_def)

theorem check_virality_no_subscribers_witness:
  "(0::int) \<le> 0 \<and>
   check_virality default_thresholds 1000000 0 =
     Inr \<lparr>is_viral = False, score = 0, threshold_used = 0,
          channel_category = str ''unknown'', views = 1000000, subscribers = 0\<rparr>"
  using check_virality_no_subscribers [of 0 default_thresholds 1000000] by simp

text \<open>
  Claim C8. When both breakpoints are configured and \<open>small.max_subs < medium.max_subs\<close>,
  exactly \<open>small.max_subs\<close> subscribers is \<open>small\<close> and one more is \<open>medium\<close>;
  exactly \<open>medium.max_subs\<close> is \<open>medium\<close> and one more is \<open>large\<close>.
\<close>

theorem category_boundaries:
  assumes "max_subs (small th) = Some a" and "max_subs (medium th) = Some b" and "a < b"
  shows "get_channel_category th a = Inr (str ''small'')
       \<and> get_channel_category th (a + 1) = Inr (str ''medium'')
       \<and> get_channel_category th b = Inr (str ''medium'')
       \<and> get_channel_category th (b + 1) = Inr (str ''large'')"
  using assms by (simp add: get_channel_category_def)

theorem category_boundaries_witness:
  "max_subs (small default_thresholds) = Some 5000
   \<and> max_subs (medium default_thresholds) = Some 50000
   \<and> (5000::int) < 50000
   \<and> get_channel_category default_thresholds 5000 = Inr (str ''small'')
   \<and> get_channel_category default_thresholds 5001 = Inr (str ''medium'')
   \<and> get_channel_category default_thresholds 50000 = Inr (str ''medium'')
   \<and> get_channel_category default_thresholds 50001 = Inr (str ''large'')"
proof -
  have a: "max_subs (small default_thresholds) = Some 5000"
    and b: "max_subs (medium default_thresholds) = Some 50000"
    by (simp_all add: default_thresholds_def)
  have l: "(5000::int) < 50000" by simp
  show ?thesis using category_boundaries [OF a b l] a b by simp
qed





section \<open>Properties of number extraction\<close>

lemmas extract_eval =
  extract_number_def normalize_def str_def remove_char_def
  patterns_def match_here_def is_digit_dot_def is_digit_def is_space_def py_float_def
  digits_value_def digit_of_def mln_def mlrd_def tys_def
  ascii_only_def ascii_lower_def ascii_digit_def
















lemma fl_5m: "fl (fl 5 * 1000000) = 5000000" by code_simp





text \<open>
  Outside the texts of the theorem: the spaces are removed before matching, and a number
  followed by a word that starts with \<open>m\<close> is read by the million pattern.
\<close>

lemma extract_number_unit_letter:
  "extract_number ascii_only (str ''Aave has 5 markets'') = Some 5000000"
proof -
  have "extract_number ascii_only (str ''Aave has 5 markets'') = Some (fl (fl 5 * 1000000))"
    by (simp add: extract_eval)
  then show ?thesis by (simp only: fl_5m)
qed

section \<open>Properties of the fact verifier\<close>

lemma str_eq_iff: "str a = str b \<longleftrightarrow> a = b"
  by (simp add: str_def inj_map_eq_map inj_on_def)

lemma length_str: "length (str a) = length a"
  by (simp add: str_def)

lemma str_Nil_iff: "str a = [] \<longleftrightarrow> a = []"
  by (simp add: str_def)

lemma first_data_Some_iff:
  "first_data f es \<noteq> None \<longleftrightarrow> (\<exists>e \<in> set es. f e \<noteq> None)"
  by (induction es) (auto split: option.splits)

lemma first_data_SomeD:
  "first_data f es = Some (e, d) \<Longrightarrow>
     \<exists>pre post. es = pre @ e # post \<and> (\<forall>x \<in> set pre. f x = None) \<and> f e = Some d"
proof (induction es)
  case Nil
  then show ?case by simp
next
  case (Cons a es)
  show ?case
  proof (cases "f a")
    case None
    with Cons.prems have "first_data f es = Some (e, d)" by simp
    from Cons.IH [OF this] obtain pre post where
      "es = pre @ e # post" "\<forall>x \<in> set pre. f x = None" "f e = Some d" by blast
    with None have "a # es = (a # pre) @ e # post \<and> (\<forall>x \<in> set (a # pre). f x = None) \<and> f e = Some d"
      by simp
    then show ?thesis by blast
  next
    case (Some d')
    with Cons.prems have "a = e" "d' = d" by simp_all
    with Some have "a # es = [] @ e # es \<and> (\<forall>x \<in> set []. f x = None) \<and> f e = Some d" by simp
    then show ?thesis by blast
  qed
qed

lemma verify_tvl_loop_first:
  "verify_tvl_loop U src c es =
     (case first_data (get_protocol_tvl src) es of
        Some (e, d) \<Rightarrow> tvl_found U c d
      | None \<Rightarrow> verify_tvl_loop U src c [])"
  by (induction es) (auto split: option.splits)

lemma verify_price_loop_first:
  "verify_price_loop U src c es =
     (case first_data (get_token_price src) es of
        Some (e, d) \<Rightarrow> price_found U c d
      | None \<Rightarrow> verify_price_loop U src c [])"
  by (induction es) (auto split: option.splits)

lemma verify_general_loop_first:
  "verify_general_loop src c es =
     (case first_data (general_lookup src) es of
        Some (e, (True, d)) \<Rightarrow>
          Inr \<lparr>vr_claim = c, status = VERIFIED, source = Some defillama_name,
               verified_value = Some (StrOf (fd_value d)), original_value = None,
               vr_notes = Some (EntityFound e)\<rparr>
      | Some (e, (False, d)) \<Rightarrow>
          (case py_format_f (fd_value d) of
             Inl err \<Rightarrow> Inl err
           | Inr v \<Rightarrow>
               Inr \<lparr>vr_claim = c, status = VERIFIED, source = Some coingecko_name,
                    verified_value = Some (Dollars2 v), original_value = None,
                    vr_notes = Some (TokenFound e)\<rparr>)
      | None \<Rightarrow> verify_general_loop src c [])"
  by (induction es) (auto simp: general_lookup_def split: option.splits)

lemma py_format_f_number: "py_number v = Some a \<Longrightarrow> py_format_f v = Inr a"
  by (cases v) auto

subsection \<open>Reachable statuses\<close>

lemma tvl_compare_status:
  "tvl_compare c v x = Inr r \<Longrightarrow> status r = VERIFIED \<or> status r = OUTDATED"
  by (auto simp: tvl_compare_def split: sum.splits if_splits)

lemma tvl_exists_status: "tvl_exists c v = Inr r \<Longrightarrow> status r = VERIFIED"
  by (auto simp: tvl_exists_def split: sum.splits)

lemma tvl_found_status:
  "tvl_found U c d = Inr r \<Longrightarrow> status r = VERIFIED \<or> status r = OUTDATED"
  by (auto simp: tvl_found_def split: sum.splits option.splits if_splits
      dest: tvl_compare_status tvl_exists_status)

lemma price_compare_status:
  "price_compare c v x = Inr r \<Longrightarrow> status r = VERIFIED \<or> status r = OUTDATED"
  by (auto simp: price_compare_def split: sum.splits if_splits)

lemma price_exists_status: "price_exists c v = Inr r \<Longrightarrow> status r = VERIFIED"
  by (auto simp: price_exists_def split: sum.splits)

lemma price_found_status:
  "price_found U c d = Inr r \<Longrightarrow> status r = VERIFIED \<or> status r = OUTDATED"
  by (auto simp: price_found_def split: sum.splits option.splits if_splits
      dest: price_compare_status price_exists_status)

lemma verify_tvl_loop_status:
  "verify_tvl_loop U src c es = Inr r \<Longrightarrow> status r \<noteq> FALSE"
  by (induction es) (auto split: option.splits dest: tvl_found_status)

lemma verify_price_loop_status:
  "verify_price_loop U src c es = Inr r \<Longrightarrow> status r \<noteq> FALSE"
  by (induction es) (auto split: option.splits dest: price_found_status)

lemma yield_pools_loop_status:
  "yield_pools_loop c ca pools = Inr (Some r) \<Longrightarrow> status r = VERIFIED"
  by (induction pools) (auto split: sum.splits option.splits if_splits)

lemma yield_outdated_status: "yield_outdated c pools ca = Inr r \<Longrightarrow> status r = OUTDATED"
  by (auto simp: yield_outdated_def split: sum.splits)

lemma verify_yield_loop_status:
  "verify_yield_loop U src c es = Inr r \<Longrightarrow> status r \<noteq> FALSE"
  by (induction es)
    (auto split: sum.splits option.splits if_splits
      dest: yield_pools_loop_status yield_outdated_status)

lemma verify_general_loop_status:
  "verify_general_loop src c es = Inr r \<Longrightarrow> status r = VERIFIED \<or> status r = UNVERIFIED"
  by (induction es) (auto split: sum.splits option.splits)

lemma verify_single_claim_status:
  "verify_single_claim U src c = Inr r \<Longrightarrow> status r \<noteq> FALSE"
  by (auto simp: verify_single_claim_def verify_tvl_claim_def verify_price_claim_def
        verify_yield_claim_def verify_general_claim_def
      split: if_splits sum.splits
      dest: verify_tvl_loop_status verify_price_loop_status verify_yield_loop_status
        verify_general_loop_status)

lemma verify_each_status:
  "verify_each U src vid cs = Inr facts \<Longrightarrow> f \<in> set facts \<Longrightarrow> vf_status f \<noteq> FALSE"
proof (induction cs arbitrary: facts)
  case Nil
  then show ?case by simp
next
  case (Cons c cs)
  from Cons.prems(1) obtain r u fs where
    r: "verify_single_claim U src c = Inr r" and "py_slice_check (claim c) = Inr u"
    and fs: "verify_each U src vid cs = Inr fs"
    and facts: "facts = \<lparr>video_id = vid, vf_claim = claim c, vf_status = status r,
                          vf_source = source r, vf_verified_value = verified_value r\<rparr> # fs"
    by (auto split: sum.splits)
  from Cons.prems(2) facts consider
    "f = \<lparr>video_id = vid, vf_claim = claim c, vf_status = status r,
                          vf_source = source r, vf_verified_value = verified_value r\<rparr>" | "f \<in> set fs"
    by auto
  then show ?case
  proof cases
    case 1
    with verify_single_claim_status [OF r] show ?thesis by simp
  next
    case 2
    with Cons.IH [OF fs] show ?thesis by simp
  qed
qed

lemma status_cases: "s \<noteq> FALSE \<longleftrightarrow> s \<in> {VERIFIED, OUTDATED, UNVERIFIED}"
  by (cases s) auto

lemma fl_ten_billion: "fl (fl 10 * 1000000000) = 10000000000" by code_simp

lemma ex_ten: "extract_number ascii_only (str ''Aave TVL is $10 billion'') = Some 10000000000"
proof -
  have "extract_number ascii_only (str ''Aave TVL is $10 billion'') = Some (fl (fl 10 * 1000000000))"
    by (simp add: extract_eval)
  then show ?thesis by (simp only: fl_ten_billion)
qed



lemma band_lo: "fl (4 / 5) = 3602879701896397 / 4503599627370496" by code_simp

lemma band_hi: "fl (6 / 5) = 5404319552844595 / 4503599627370496" by code_simp

lemma div_11: "py_truediv (JInt 11000000000) 10000000000 = Inr (2476979795053773 / 2251799813685248)"
  by code_simp


lemmas verify_eval =
  verify_claims_def extract_claims_def coerce_item_def keep_claim_def
  py_slice_to_def verify_single_claim_def verify_tvl_claim_def tvl_found_def tvl_compare_def
  extract_number_of_def example_item_def example_sources_def example_claim_def
  example_transcript_def str_eq_iff length_str str_Nil_iff band_lo band_hi

lemma example_run:
  "verify_claims ascii_only (example_sources (JInt 11000000000) []) (py_float ascii_only)
     (\<lambda>t. Inr [example_item (str ''Aave TVL is $10 billion'') (str ''tvl'') (7 / 8)])
     example_transcript (str ''v1'')
   = Inr [\<lparr>video_id = str ''v1'', vf_claim = JStr (str ''Aave TVL is $10 billion''),
           vf_status = VERIFIED, vf_source = Some defillama_name,
           vf_verified_value = Some (Dollars0 11000000000)\<rparr>]"
  by (simp add: verify_eval ex_ten div_11)

text \<open>
  Claim C6. Whatever the transcript, the adapters and the generative collaborator do,
  every \<open>VerifiedFact\<close> that a verification pass returns has a status among verified,
  outdated and unverified: no path assigns \<open>FALSE\<close>. (A pass that raises returns no
  fact at all.)
\<close>

theorem verified_fact_status_never_false:
  assumes "verify_claims U src str_float llm transcript vid = Inr facts"
  shows "\<forall>f \<in> set facts. vf_status f \<in> {VERIFIED, OUTDATED, UNVERIFIED} \<and> vf_status f \<noteq> FALSE"
proof
  fix f
  assume f: "f \<in> set facts"
  have "vf_status f \<noteq> FALSE"
  proof (cases "extract_claims str_float llm transcript 20 = []")
    case True
    with assms have "facts = []" by (simp add: verify_claims_def)
    with f show ?thesis by simp
  next
    case False
    with assms have "verify_each U src vid (extract_claims str_float llm transcript 20) = Inr facts"
      by (simp add: verify_claims_def Let_def)
    from verify_each_status [OF this f] show ?thesis .
  qed
  then show "vf_status f \<in> {VERIFIED, OUTDATED, UNVERIFIED} \<and> vf_status f \<noteq> FALSE"
    by (simp add: status_cases)
qed

theorem verified_fact_status_never_false_witness:
  "verify_claims ascii_only (example_sources (JInt 11000000000) []) (py_float ascii_only)
     (\<lambda>t. Inr [example_item (str ''Aave TVL is $10 billion'') (str ''tvl'') (7 / 8)])
     example_transcript (str ''v1'')
   = Inr [\<lparr>video_id = str ''v1'', vf_claim = JStr (str ''Aave TVL is $10 billion''),
           vf_status = VERIFIED, vf_source = Some defillama_name,
           vf_verified_value = Some (Dollars0 11000000000)\<rparr>]
   \<and> vf_status \<lparr>video_id = str ''v1'', vf_claim = JStr (str ''Aave TVL is $10 billion''),
           vf_status = VERIFIED, vf_source = Some defillama_name,
           vf_verified_value = Some (Dollars0 11000000000)\<rparr> \<in> {VERIFIED, OUTDATED, UNVERIFIED}"
  using verified_fact_status_never_false [OF example_run] example_run by simp

subsection \<open>The tolerance band of TVL claims\<close>






subsection \<open>No division by zero\<close>

lemma py_truediv_no_zero: "b \<noteq> 0 \<Longrightarrow> py_truediv a b \<noteq> Inl ZeroDivisionError"
  by (simp add: py_truediv_def split: option.splits)

lemma py_format_f_no_zero: "py_format_f v \<noteq> Inl ZeroDivisionError"
  by (cases v) auto

lemma py_get_no_zero: "py_get v k d \<noteq> Inl ZeroDivisionError"
  by (cases v) auto

lemma tvl_compare_no_zero: "tvl_compare c v x \<noteq> Inl ZeroDivisionError"
  using py_truediv_no_zero [of x v] py_format_f_no_zero [of v]
  by (auto simp: tvl_compare_def split: sum.splits if_splits)

lemma tvl_exists_no_zero: "tvl_exists c v \<noteq> Inl ZeroDivisionError"
  using py_format_f_no_zero [of v]
  by (auto simp: tvl_exists_def split: sum.splits)

lemma tvl_found_no_zero: "tvl_found U c d \<noteq> Inl ZeroDivisionError"
  by (auto simp: tvl_found_def extract_number_of_def tvl_compare_no_zero tvl_exists_no_zero
      split: sum.splits option.splits json.splits)

lemma price_compare_no_zero: "price_compare c v x \<noteq> Inl ZeroDivisionError"
  using py_truediv_no_zero [of x v] py_format_f_no_zero [of v]
  by (auto simp: price_compare_def split: sum.splits if_splits)

lemma price_exists_no_zero: "price_exists c v \<noteq> Inl ZeroDivisionError"
  using py_format_f_no_zero [of v]
  by (auto simp: price_exists_def split: sum.splits)

lemma price_found_no_zero: "price_found U c d \<noteq> Inl ZeroDivisionError"
  by (auto simp: price_found_def extract_number_of_def price_compare_no_zero price_exists_no_zero
      split: sum.splits option.splits json.splits)

lemma verify_tvl_loop_no_zero: "verify_tvl_loop U src c es \<noteq> Inl ZeroDivisionError"
  by (induction es) (auto simp: tvl_found_no_zero split: option.splits)

lemma verify_price_loop_no_zero: "verify_price_loop U src c es \<noteq> Inl ZeroDivisionError"
  by (induction es) (auto simp: price_found_no_zero split: option.splits)

lemma yield_pools_loop_no_zero: "yield_pools_loop c ca pools \<noteq> Inl ZeroDivisionError"
proof (induction pools)
  case Nil
  then show ?case by simp
next
  case (Cons p pools)
  show ?case
  proof (cases ca)
    case None
    with Cons show ?thesis
      using py_get_no_zero [of p "str ''apy''" "JInt 0"]
      by (auto split: sum.splits)
  next
    case (Some x)
    with Cons show ?thesis
      using py_get_no_zero [of p] py_truediv_no_zero [of x] py_format_f_no_zero
      by (auto split: sum.splits if_splits)
  qed
qed

lemma sum_apy_no_zero: "sum_apy acc ps \<noteq> Inl ZeroDivisionError"
  using py_get_no_zero
  by (induction ps arbitrary: acc) (auto split: sum.splits option.splits)

lemma yield_outdated_no_zero:
  "pools \<noteq> [] \<Longrightarrow> yield_outdated c pools ca \<noteq> Inl ZeroDivisionError"
  using sum_apy_no_zero [of 0 "take 5 pools"]
  by (cases pools) (auto simp: yield_outdated_def py_div_num_def split: sum.splits)

lemma extract_percentage_of_no_zero: "extract_percentage_of U v \<noteq> Inl ZeroDivisionError"
  by (auto simp: extract_percentage_of_def split: json.splits)

lemma verify_yield_loop_no_zero: "verify_yield_loop U src c es \<noteq> Inl ZeroDivisionError"
proof (induction es)
  case Nil
  then show ?case by simp
next
  case (Cons e es)
  show ?case
    using Cons extract_percentage_of_no_zero [of U "claim c"]
      yield_pools_loop_no_zero [of c _ "take 10 (get_yields src e)"]
      yield_outdated_no_zero [of "get_yields src e" c]
    by (auto split: sum.splits option.splits if_splits)
qed

lemma verify_general_loop_no_zero: "verify_general_loop src c es \<noteq> Inl ZeroDivisionError"
  using py_format_f_no_zero
  by (induction es) (auto split: sum.splits option.splits)

lemma py_iter_no_zero: "py_iter v \<noteq> Inl ZeroDivisionError"
  by (cases v) auto

lemma verify_single_claim_no_zero: "verify_single_claim U src c \<noteq> Inl ZeroDivisionError"
  using py_iter_no_zero [of "entities c"]
  by (auto simp: verify_single_claim_def verify_tvl_claim_def verify_price_claim_def
        verify_yield_claim_def verify_general_claim_def verify_tvl_loop_no_zero
        verify_price_loop_no_zero verify_yield_loop_no_zero verify_general_loop_no_zero
      split: sum.splits)

lemma py_slice_check_no_zero: "py_slice_check v \<noteq> Inl ZeroDivisionError"
  by (cases v) auto

lemma verify_each_no_zero: "verify_each U src vid cs \<noteq> Inl ZeroDivisionError"
  using verify_single_claim_no_zero py_slice_check_no_zero
  by (induction cs) (auto split: sum.splits)

text \<open>
  Claim C10. No verification path raises \<open>ZeroDivisionError\<close>. In the TVL and price
  paths a claimed number that is exactly 0 is treated as an absent one: both take the
  code after the comparison branch, which confirms the entity, and the division is not
  reached.
\<close>

theorem zero_claimed_number_is_absent:
  "verify_single_claim U src c' \<noteq> Inl ZeroDivisionError
   \<and> verify_claims U src str_float llm transcript vid \<noteq> Inl ZeroDivisionError
   \<and> (claim c = JStr t \<longrightarrow> extract_number U t = Some 0 \<or> extract_number U t = None \<longrightarrow>
        tvl_found U c d = tvl_exists c (fd_value d)
        \<and> price_found U c d = price_exists c (fd_value d))
   \<and> (claim c = JStr t \<longrightarrow> extract_number U t = Some 0 \<longrightarrow> py_iter (entities c) = Inr es \<longrightarrow>
        (category c = JStr (str ''tvl'') \<longrightarrow> first_data (get_protocol_tvl src) es = Some (e, d)
           \<longrightarrow> verify_single_claim U src c = tvl_exists c (fd_value d))
        \<and> (category c = JStr (str ''price'') \<longrightarrow> first_data (get_token_price src) es = Some (e, d)
           \<longrightarrow> verify_single_claim U src c = price_exists c (fd_value d)))"
proof (intro conjI impI)
  show "verify_single_claim U src c' \<noteq> Inl ZeroDivisionError"
    by (rule verify_single_claim_no_zero)
  show "verify_claims U src str_float llm transcript vid \<noteq> Inl ZeroDivisionError"
    by (simp add: verify_claims_def Let_def verify_each_no_zero)
next
  assume "claim c = JStr t" "extract_number U t = Some 0 \<or> extract_number U t = None"
  then show "tvl_found U c d = tvl_exists c (fd_value d)"
    by (auto simp: tvl_found_def extract_number_of_def)
next
  assume "claim c = JStr t" "extract_number U t = Some 0 \<or> extract_number U t = None"
  then show "price_found U c d = price_exists c (fd_value d)"
    by (auto simp: price_found_def extract_number_of_def)
next
  assume "claim c = JStr t" "extract_number U t = Some 0" "py_iter (entities c) = Inr es"
    "category c = JStr (str ''tvl'')" "first_data (get_protocol_tvl src) es = Some (e, d)"
  then show "verify_single_claim U src c = tvl_exists c (fd_value d)"
    by (simp add: verify_single_claim_def verify_tvl_claim_def verify_tvl_loop_first
        tvl_found_def extract_number_of_def)
next
  assume "claim c = JStr t" "extract_number U t = Some 0" "py_iter (entities c) = Inr es"
    "category c = JStr (str ''price'')" "first_data (get_token_price src) es = Some (e, d)"
  then show "verify_single_claim U src c = price_exists c (fd_value d)"
    by (simp add: verify_single_claim_def verify_price_claim_def verify_price_loop_first
        price_found_def extract_number_of_def str_eq_iff)
qed

theorem zero_claimed_number_is_absent_witness:
  "extract_number ascii_only (str ''Aave TVL is $0'') = Some 0
   \<and> verify_single_claim ascii_only (example_sources (JInt 5000000000) [])
        (example_claim (str ''Aave TVL is $0'') (str ''tvl''))
      = Inr \<lparr>vr_claim = example_claim (str ''Aave TVL is $0'') (str ''tvl''),
             status = VERIFIED, source = Some defillama_name,
             verified_value = Some (Dollars0 5000000000), original_value = None,
             vr_notes = Some (NoteText (str ''Protocol exists, TVL confirmed''))\<rparr>
   \<and> verify_single_claim ascii_only (example_sources (JInt 5000000000) [])
        (example_claim (str ''Aave TVL is $0'') (str ''price''))
      = Inr \<lparr>vr_claim = example_claim (str ''Aave TVL is $0'') (str ''price''),
             status = VERIFIED, source = Some coingecko_name,
             verified_value = Some (Dollars2 5000000000), original_value = None,
             vr_notes = None\<rparr>"
proof -
  let ?src = "example_sources (JInt 5000000000) []"
  let ?d = "\<lambda>n. \<lparr>fd_source = n, fd_query = JStr (str ''Aave''),
      fd_value = JInt 5000000000, fd_unit = Some (str ''USD'')\<rparr>"
  have x: "extract_number ascii_only (str ''Aave TVL is $0'') = Some 0"
    by (simp add: extract_eval fl_zero)
  have cl: "claim (example_claim (str ''Aave TVL is $0'') cat) = JStr (str ''Aave TVL is $0'')"
    and es: "py_iter (entities (example_claim (str ''Aave TVL is $0'') cat)) = Inr [JStr (str ''Aave'')]"
    and cat: "category (example_claim (str ''Aave TVL is $0'') cat) = JStr cat" for cat
    by (simp_all add: example_claim_def)
  have fd1: "first_data (get_protocol_tvl ?src) [JStr (str ''Aave'')]
      = Some (JStr (str ''Aave''), ?d defillama_name)"
    and fd2: "first_data (get_token_price ?src) [JStr (str ''Aave'')]
      = Some (JStr (str ''Aave''), ?d coingecko_name)"
    by (simp_all add: example_sources_def)
  note thm1 = zero_claimed_number_is_absent [where src = ?src
      and c = "example_claim (str ''Aave TVL is $0'') (str ''tvl'')"
      and t = "str ''Aave TVL is $0''" and d = "?d defillama_name"
      and es = "[JStr (str ''Aave'')]" and e = "JStr (str ''Aave'')"]
  note thm2 = zero_claimed_number_is_absent [where src = ?src
      and c = "example_claim (str ''Aave TVL is $0'') (str ''price'')"
      and t = "str ''Aave TVL is $0''" and d = "?d coingecko_name"
      and es = "[JStr (str ''Aave'')]" and e = "JStr (str ''Aave'')"]
  from thm1 x cl es cat fd1
  have "verify_single_claim ascii_only ?src (example_claim (str ''Aave TVL is $0'') (str ''tvl''))
      = tvl_exists (example_claim (str ''Aave TVL is $0'') (str ''tvl'')) (fd_value (?d defillama_name))"
    by blast
  moreover from thm2 x cl es cat fd2
  have "verify_single_claim ascii_only ?src (example_claim (str ''Aave TVL is $0'') (str ''price''))
      = price_exists (example_claim (str ''Aave TVL is $0'') (str ''price'')) (fd_value (?d coingecko_name))"
    by blast
  ultimately show ?thesis using x by (simp add: tvl_exists_def price_exists_def)
qed

subsection \<open>A claim without a number\<close>

lemmas percentage_eval =
  extract_percentage_def percentage_patterns_def protsent_def str_def match_here_def
  is_digit_dot_def is_digit_def is_space_def ascii_only_def ascii_lower_def ascii_digit_def

lemma yield_pools_loop_no_percentage:
  "yield_pools_loop c None pools = (if list_all is_dict pools then Inr None else Inl AttributeError)"
proof (induction pools)
  case Nil
  then show ?case by simp
next
  case (Cons p pools)
  then show ?case by (cases p) auto
qed

lemma verify_yield_loop_no_percentage:
  assumes "extract_percentage_of U (claim c) = Inr None"
  shows "verify_yield_loop U src c es =
     (if \<forall>e \<in> set es. list_all is_dict (take 10 (get_yields src e))
      then Inr (unverified_yield c) else Inl AttributeError)"
  using assms
  by (induction es) (auto simp: yield_pools_loop_no_percentage unverified_yield_def)

text \<open>
  Claim C4, as stated, fails for the category \<open>percentage\<close>: the claim text below has
  neither a number nor a percentage, the yields listing has a pool for its entity, and
  the status is unverified.
\<close>

theorem existence_without_number_counterexample:
  "get_yields (example_sources JNull [JObj [(str ''apy'', JFloat 5)]]) (JStr (str ''Aave'')) \<noteq> []
   \<and> extract_number ascii_only (str ''Aave pays a high yield'') = None
   \<and> extract_percentage ascii_only (str ''Aave pays a high yield'') = None
   \<and> verify_single_claim ascii_only (example_sources JNull [JObj [(str ''apy'', JFloat 5)]])
        (example_claim (str ''Aave pays a high yield'') (str ''percentage''))
      = Inr (unverified_yield (example_claim (str ''Aave pays a high yield'') (str ''percentage'')))
   \<and> status (unverified_yield (example_claim (str ''Aave pays a high yield'') (str ''percentage'')))
      = UNVERIFIED"
proof -
  have n: "extract_number ascii_only (str ''Aave pays a high yield'') = None"
    by (simp add: extract_eval fl_zero)
  have p: "extract_percentage ascii_only (str ''Aave pays a high yield'') = None"
    by (simp add: percentage_eval)
  let ?c = "example_claim (str ''Aave pays a high yield'') (str ''percentage'')"
  let ?src = "example_sources JNull [JObj [(str ''apy'', JFloat 5)]]"
  have pct: "extract_percentage_of ascii_only (claim ?c) = Inr None"
    by (simp add: extract_percentage_of_def example_claim_def p)
  have cat: "category ?c = JStr (str ''percentage'')"
    and es: "py_iter (entities ?c) = Inr [JStr (str ''Aave'')]"
    by (simp_all add: example_claim_def)
  have "verify_single_claim ascii_only ?src ?c = verify_yield_loop ascii_only ?src ?c [JStr (str ''Aave'')]"
    by (simp add: verify_single_claim_def verify_yield_claim_def cat es str_eq_iff)
  also have "\<dots> = Inr (unverified_yield ?c)"
    by (subst verify_yield_loop_no_percentage [OF pct]) (simp add: example_sources_def)
  finally have v: "verify_single_claim ascii_only ?src ?c = Inr (unverified_yield ?c)" .
  have y: "get_yields ?src (JStr (str ''Aave'')) \<noteq> []"
    by (simp add: example_sources_def)
  have u: "status (unverified_yield ?c) = UNVERIFIED"
    by (simp add: unverified_yield_def)
  from y n p v u show ?thesis by simp
qed

text \<open>
  Claim C4, amended. Let the claim text have no extractable number. For the category
  \<open>tvl\<close>, when the first entity that the TVL lookup knows has a numeric value, the
  status is verified, with the note that the protocol exists; for \<open>price\<close>, likewise
  with the price lookup, the status is verified, without a note; for a category other
  than \<open>tvl\<close>, \<open>price\<close> and \<open>percentage\<close>, the first entity that either source knows
  gives the status verified, with a note that names the entity. For \<open>percentage\<close>,
  when the text has no extractable percentage, the status is unverified whatever the
  yields listing returns (its pools being dictionaries, as the adapter's filter makes
  them).
\<close>

theorem existence_without_number:
  assumes "py_iter (entities c) = Inr es" and "claim c = JStr t"
  shows
    "(category c = JStr (str ''tvl'') \<longrightarrow> extract_number U t = None \<longrightarrow>
        first_data (get_protocol_tvl src) es = Some (e, d) \<longrightarrow> py_number (fd_value d) = Some a \<longrightarrow>
        verify_single_claim U src c =
          Inr \<lparr>vr_claim = c, status = VERIFIED, source = Some defillama_name,
               verified_value = Some (Dollars0 a), original_value = None,
               vr_notes = Some (NoteText (str ''Protocol exists, TVL confirmed''))\<rparr>)
   \<and> (category c = JStr (str ''price'') \<longrightarrow> extract_number U t = None \<longrightarrow>
        first_data (get_token_price src) es = Some (e, d) \<longrightarrow> py_number (fd_value d) = Some a \<longrightarrow>
        verify_single_claim U src c =
          Inr \<lparr>vr_claim = c, status = VERIFIED, source = Some coingecko_name,
               verified_value = Some (Dollars2 a), original_value = None,
               vr_notes = None\<rparr>)
   \<and> (category c \<noteq> JStr (str ''tvl'') \<and> category c \<noteq> JStr (str ''price'')
        \<and> category c \<noteq> JStr (str ''percentage'') \<longrightarrow>
        (first_data (general_lookup src) es = Some (e, (True, d)) \<longrightarrow>
           verify_single_claim U src c =
             Inr \<lparr>vr_claim = c, status = VERIFIED, source = Some defillama_name,
                  verified_value = Some (StrOf (fd_value d)), original_value = None,
                  vr_notes = Some (EntityFound e)\<rparr>)
        \<and> (first_data (general_lookup src) es = Some (e, (False, d)) \<longrightarrow>
             py_number (fd_value d) = Some a \<longrightarrow>
           verify_single_claim U src c =
             Inr \<lparr>vr_claim = c, status = VERIFIED, source = Some coingecko_name,
                  verified_value = Some (Dollars2 a), original_value = None,
                  vr_notes = Some (TokenFound e)\<rparr>))
   \<and> (category c = JStr (str ''percentage'') \<longrightarrow> extract_percentage U t = None \<longrightarrow>
        verify_single_claim U src c =
          (if \<forall>e \<in> set es. list_all is_dict (take 10 (get_yields src e))
           then Inr (unverified_yield c) else Inl AttributeError))"
proof (intro conjI impI)
  assume "category c = JStr (str ''tvl'')" "extract_number U t = None"
    "first_data (get_protocol_tvl src) es = Some (e, d)" "py_number (fd_value d) = Some a"
  with assms show "verify_single_claim U src c =
          Inr \<lparr>vr_claim = c, status = VERIFIED, source = Some defillama_name,
               verified_value = Some (Dollars0 a), original_value = None,
               vr_notes = Some (NoteText (str ''Protocol exists, TVL confirmed''))\<rparr>"
    by (simp add: verify_single_claim_def verify_tvl_claim_def verify_tvl_loop_first
        tvl_found_def extract_number_of_def tvl_exists_def py_format_f_number)
next
  assume "category c = JStr (str ''price'')" "extract_number U t = None"
    "first_data (get_token_price src) es = Some (e, d)" "py_number (fd_value d) = Some a"
  with assms show "verify_single_claim U src c =
          Inr \<lparr>vr_claim = c, status = VERIFIED, source = Some coingecko_name,
               verified_value = Some (Dollars2 a), original_value = None,
               vr_notes = None\<rparr>"
    by (simp add: verify_single_claim_def verify_price_claim_def verify_price_loop_first
        price_found_def extract_number_of_def price_exists_def py_format_f_number str_eq_iff)
next
  assume "category c \<noteq> JStr (str ''tvl'') \<and> category c \<noteq> JStr (str ''price'')
        \<and> category c \<noteq> JStr (str ''percentage'')"
    "first_data (general_lookup src) es = Some (e, (True, d))"
  with assms show "verify_single_claim U src c =
             Inr \<lparr>vr_claim = c, status = VERIFIED, source = Some defillama_name,
                  verified_value = Some (StrOf (fd_value d)), original_value = None,
                  vr_notes = Some (EntityFound e)\<rparr>"
    by (simp add: verify_single_claim_def verify_general_claim_def verify_general_loop_first)
next
  assume "category c \<noteq> JStr (str ''tvl'') \<and> category c \<noteq> JStr (str ''price'')
        \<and> category c \<noteq> JStr (str ''percentage'')"
    "first_data (general_lookup src) es = Some (e, (False, d))" "py_number (fd_value d) = Some a"
  with assms show "verify_single_claim U src c =
             Inr \<lparr>vr_claim = c, status = VERIFIED, source = Some coingecko_name,
                  verified_value = Some (Dollars2 a), original_value = None,
                  vr_notes = Some (TokenFound e)\<rparr>"
    by (simp add: verify_single_claim_def verify_general_claim_def verify_general_loop_first
        py_format_f_number)
next
  assume "category c = JStr (str ''percentage'')" "extract_percentage U t = None"
  with assms have "extract_percentage_of U (claim c) = Inr None"
    by (simp add: extract_percentage_of_def)
  from verify_yield_loop_no_percentage [OF this]
    \<open>category c = JStr (str ''percentage'')\<close> assms
  show "verify_single_claim U src c =
          (if \<forall>e \<in> set es. list_all is_dict (take 10 (get_yields src e))
           then Inr (unverified_yield c) else Inl AttributeError)"
    by (simp add: verify_single_claim_def verify_yield_claim_def str_eq_iff)
qed

theorem existence_without_number_witness:
  "verify_single_claim ascii_only (example_sources (JInt 5000000000) [])
      (example_claim (str ''Aave has the largest TVL'') (str ''tvl''))
     = Inr \<lparr>vr_claim = example_claim (str ''Aave has the largest TVL'') (str ''tvl''),
            status = VERIFIED, source = Some defillama_name,
            verified_value = Some (Dollars0 5000000000), original_value = None,
            vr_notes = Some (NoteText (str ''Protocol exists, TVL confirmed''))\<rparr>
   \<and> verify_single_claim ascii_only (example_sources (JInt 5000000000) [])
      (example_claim (str ''Aave has the largest TVL'') (str ''price''))
     = Inr \<lparr>vr_claim = example_claim (str ''Aave has the largest TVL'') (str ''price''),
            status = VERIFIED, source = Some coingecko_name,
            verified_value = Some (Dollars2 5000000000), original_value = None,
            vr_notes = None\<rparr>
   \<and> verify_single_claim ascii_only (example_sources (JInt 5000000000) [])
      (example_claim (str ''Aave has the largest TVL'') (str ''other''))
     = Inr \<lparr>vr_claim = example_claim (str ''Aave has the largest TVL'') (str ''other''),
            status = VERIFIED, source = Some defillama_name,
            verified_value = Some (StrOf (JInt 5000000000)), original_value = None,
            vr_notes = Some (EntityFound (JStr (str ''Aave'')))\<rparr>
   \<and> verify_single_claim ascii_only (example_sources (JInt 5000000000) [JObj [(str ''apy'', JFloat 5)]])
      (example_claim (str ''Aave has the largest TVL'') (str ''percentage''))
     = Inr (unverified_yield (example_claim (str ''Aave has the largest TVL'') (str ''percentage'')))"
proof -
  let ?t = "str ''Aave has the largest TVL''"
  let ?e = "JStr (str ''Aave'')"
  let ?d = "\<lambda>n. \<lparr>fd_source = n, fd_query = ?e,
      fd_value = JInt 5000000000, fd_unit = Some (str ''USD'')\<rparr>"
  have n: "extract_number ascii_only ?t = None"
    by (simp add: extract_eval fl_zero)
  have p: "extract_percentage ascii_only ?t = None"
    by (simp add: percentage_eval)
  have cl: "claim (example_claim ?t cat) = JStr ?t"
    and es: "py_iter (entities (example_claim ?t cat)) = Inr [?e]"
    and cat: "category (example_claim ?t cat) = JStr cat" for cat
    by (simp_all add: example_claim_def)
  have fd1: "first_data (get_protocol_tvl (example_sources (JInt 5000000000) pools)) [?e]
      = Some (?e, ?d defillama_name)"
    and fd2: "first_data (get_token_price (example_sources (JInt 5000000000) pools)) [?e]
      = Some (?e, ?d coingecko_name)"
    and fd3: "first_data (general_lookup (example_sources (JInt 5000000000) pools)) [?e]
      = Some (?e, (True, ?d defillama_name))" for pools
    by (simp_all add: example_sources_def general_lookup_def defillama_query_def)
  have num: "py_number (fd_value (?d nm)) = Some 5000000000" for nm
    by simp
  have dicts: "\<forall>e \<in> set [?e]. list_all is_dict
      (take 10 (get_yields (example_sources (JInt 5000000000) [JObj [(str ''apy'', JFloat 5)]]) e))"
    by (simp add: example_sources_def)
  have other: "JStr (str ''other'') \<noteq> JStr (str ''tvl'') \<and> JStr (str ''other'') \<noteq> JStr (str ''price'')
      \<and> JStr (str ''other'') \<noteq> JStr (str ''percentage'')"
    by (simp add: str_eq_iff)
  note a = existence_without_number [OF es cl, where src = "example_sources (JInt 5000000000) []"
      and cat1 = "str ''tvl''" and e = ?e and d = "?d defillama_name" and a = 5000000000]
  note b = existence_without_number [OF es cl, where src = "example_sources (JInt 5000000000) []"
      and cat1 = "str ''price''" and e = ?e and d = "?d coingecko_name" and a = 5000000000]
  note c = existence_without_number [OF es cl, where src = "example_sources (JInt 5000000000) []"
      and cat1 = "str ''other''" and e = ?e and d = "?d defillama_name" and a = 5000000000]
  note d = existence_without_number [OF es cl,
      where src = "example_sources (JInt 5000000000) [JObj [(str ''apy'', JFloat 5)]]"
      and cat1 = "str ''percentage''" and e = ?e and d = "?d defillama_name" and a = 5000000000]
  from a n cat fd1 num have 1: "verify_single_claim ascii_only (example_sources (JInt 5000000000) [])
      (example_claim ?t (str ''tvl''))
     = Inr \<lparr>vr_claim = example_claim ?t (str ''tvl''),
            status = VERIFIED, source = Some defillama_name,
            verified_value = Some (Dollars0 5000000000), original_value = None,
            vr_notes = Some (NoteText (str ''Protocol exists, TVL confirmed''))\<rparr>"
    by blast
  from b n cat fd2 num have 2: "verify_single_claim ascii_only (example_sources (JInt 5000000000) [])
      (example_claim ?t (str ''price''))
     = Inr \<lparr>vr_claim = example_claim ?t (str ''price''),
            status = VERIFIED, source = Some coingecko_name,
            verified_value = Some (Dollars2 5000000000), original_value = None,
            vr_notes = None\<rparr>"
    by blast
  from c other cat [of "str ''other''"] fd3 [of "[]"]
  have 3: "verify_single_claim ascii_only (example_sources (JInt 5000000000) [])
      (example_claim ?t (str ''other''))
     = Inr \<lparr>vr_claim = example_claim ?t (str ''other''),
            status = VERIFIED, source = Some defillama_name,
            verified_value = Some (StrOf (fd_value (?d defillama_name))), original_value = None,
            vr_notes = Some (EntityFound ?e)\<rparr>"
    by simp
  from d p cat [of "str ''percentage''"] dicts
  have 4: "verify_single_claim ascii_only (example_sources (JInt 5000000000) [JObj [(str ''apy'', JFloat 5)]])
      (example_claim ?t (str ''percentage''))
     = Inr (unverified_yield (example_claim ?t (str ''percentage'')))"
    by simp
  from 1 2 3 4 show ?thesis by simp
qed

section \<open>Properties of the claim extractor\<close>

lemma collect_claims_ok:
  "list_all (no_fatal_error sf) items \<Longrightarrow>
     collect_claims sf items = Inr (concat (map (item_claims sf) items))"
  by (induction items)
    (auto simp: no_fatal_error_def item_claims_def split: sum.splits py_error.splits)

lemma collect_claims_length:
  "collect_claims sf items = Inr cs \<Longrightarrow> length cs \<le> length items"
proof (induction items arbitrary: cs)
  case Nil
  then show ?case by simp
next
  case (Cons item items)
  show ?case
  proof (cases "coerce_item sf item")
    case (Inl e)
    with Cons.prems have "collect_claims sf items = Inr cs"
      by (cases e) auto
    from Cons.IH [OF this] show ?thesis by simp
  next
    case (Inr c)
    with Cons.prems obtain cs' where cs': "collect_claims sf items = Inr cs'"
      and cs: "cs = (if keep_claim c then c # cs' else cs')"
      by (auto split: sum.splits)
    from Cons.IH [OF cs'] cs show ?thesis by auto
  qed
qed

lemma length_py_slice_to: "0 \<le> n \<Longrightarrow> length (py_slice_to xs n) \<le> nat n"
  by (simp add: py_slice_to_def)

lemma extract_claims_length:
  assumes "0 \<le> n"
  shows "length (extract_claims sf llm tx n) \<le> nat n"
proof -
  have "length cs \<le> nat n" if "collect_claims sf (py_slice_to d n) = Inr cs" for d cs
    using collect_claims_length [OF that] length_py_slice_to [OF assms, of d] by linarith
  then show ?thesis
    by (auto simp: extract_claims_def split: sum.splits)
qed

lemma length_concat_singletons:
  "list_all (\<lambda>x. length (f x) = 1) xs \<Longrightarrow> length (concat (map f xs)) = length xs"
  by (induction xs) auto

lemma item_claims_length: "length (item_claims sf item) \<le> 1"
  by (simp add: item_claims_def split: sum.splits)

lemma ci_low: "coerce_item sf (example_item (str ''Aave is big'') (str ''other'') (3 / 8))
   = Inr \<lparr>claim = JStr (str ''Aave is big''), category = JStr (str ''other''),
          entities = JArr [JStr (str ''Aave'')], original_text = JStr (str ''Aave is big''),
          confidence = 3 / 8\<rparr>"
  by (simp add: coerce_item_def example_item_def str_eq_iff)

lemma ci_good: "coerce_item sf (example_item (str ''Aave TVL is $10 billion'') (str ''tvl'') (7 / 8))
   = Inr (example_claim (str ''Aave TVL is $10 billion'') (str ''tvl''))"
  by (simp add: coerce_item_def example_item_def example_claim_def str_eq_iff)

text \<open>
  Claim C3, as stated, fails: the source truncates before it filters. With a response of
  two items, the first of confidence 0.375 and the second of confidence 0.875, and
  \<open>max_claims = 1\<close>, only the first item is looked at and no claim is returned, although
  one item of the response satisfies the filter; filtering first would return it.
\<close>

theorem filter_then_truncate_counterexample:
  "extract_claims (py_float ascii_only)
     (\<lambda>t. Inr [example_item (str ''Aave is big'') (str ''other'') (3 / 8),
               example_item (str ''Aave TVL is $10 billion'') (str ''tvl'') (7 / 8)])
     example_transcript 1 = []
   \<and> spec_filter_then_truncate (py_float ascii_only)
       [example_item (str ''Aave is big'') (str ''other'') (3 / 8),
        example_item (str ''Aave TVL is $10 billion'') (str ''tvl'') (7 / 8)] 1
     = [example_claim (str ''Aave TVL is $10 billion'') (str ''tvl'')]
   \<and> truthy (claim (example_claim (str ''Aave TVL is $10 billion'') (str ''tvl'')))
   \<and> 1 / 2 \<le> confidence (example_claim (str ''Aave TVL is $10 billion'') (str ''tvl''))"
  by (simp add: extract_claims_def spec_filter_then_truncate_def ci_low ci_good py_slice_to_def
      keep_claim_def example_transcript_def length_str str_Nil_iff example_claim_def)

text \<open>
  Claim C3, amended. Take a response and a bound \<open>max_claims\<close> such that each of the
  items of \<open>claims_data[:max_claims]\<close> either builds a claim or raises what the loop
  catches (it is an object, and its confidence is a number, a boolean or a string), and
  such that the categories of the claims kept are hashable. The extractor first
  truncates the response to \<open>claims_data[:max_claims]\<close> and then filters these items,
  in their order: an item is kept when its claim value is true (non-empty) and its
  confidence, converted to a float, is at least 0.5; an item whose confidence is a
  string that is not a float is dropped, and the loop goes on. The missing fields of an
  item take the defaults of the source. So for \<open>max_claims \<ge> 0\<close> at most
  \<open>max_claims\<close> claims are returned, and exactly \<open>max_claims\<close> when the response has
  that many items and each of its first \<open>max_claims\<close> items satisfies the filter.
\<close>

theorem truncate_then_filter:
  assumes "50 \<le> length tx"
    and "llm (if 15000 < length tx then take 15000 tx @ str ''...'' else tx) = Inr claims_data"
    and "list_all (no_fatal_error sf) (py_slice_to claims_data max_claims)"
    and "list_all (\<lambda>c. hashable (category c))
           (concat (map (item_claims sf) (py_slice_to claims_data max_claims)))"
  shows "extract_claims sf llm tx max_claims
           = concat (map (\<lambda>item. case coerce_item sf item of
                                    Inl e \<Rightarrow> []
                                  | Inr c \<Rightarrow> if truthy (claim c) \<and> 1 / 2 \<le> confidence c
                                            then [c] else [])
                         (py_slice_to claims_data max_claims))
       \<and> py_slice_to claims_data max_claims
           = (if 0 \<le> max_claims then take (nat max_claims) claims_data
              else take (length claims_data - nat (- max_claims)) claims_data)
       \<and> (\<forall>kvs. coerce_item sf (JObj kvs) =
             (case py_float_of sf (case map_of kvs (str ''confidence'') of
                                     None \<Rightarrow> JFloat (1 / 2) | Some v \<Rightarrow> v) of
                Inl e \<Rightarrow> Inl e
              | Inr x \<Rightarrow>
                  Inr \<lparr>claim = (case map_of kvs (str ''claim'') of None \<Rightarrow> JStr [] | Some v \<Rightarrow> v),
                       category = (case map_of kvs (str ''category'') of
                                     None \<Rightarrow> JStr (str ''other'') | Some v \<Rightarrow> v),
                       entities = (case map_of kvs (str ''entities'') of None \<Rightarrow> JArr [] | Some v \<Rightarrow> v),
                       original_text = (case map_of kvs (str ''original_text'') of
                                          None \<Rightarrow> JStr [] | Some v \<Rightarrow> v),
                       confidence = x\<rparr>))
       \<and> (0 \<le> max_claims \<longrightarrow> length (extract_claims sf llm tx max_claims) \<le> nat max_claims)
       \<and> (0 \<le> max_claims \<longrightarrow> nat max_claims \<le> length claims_data \<longrightarrow>
            list_all (\<lambda>item. case coerce_item sf item of
                               Inl e \<Rightarrow> False
                             | Inr c \<Rightarrow> truthy (claim c) \<and> 1 / 2 \<le> confidence c)
              (take (nat max_claims) claims_data) \<longrightarrow>
            length (extract_claims sf llm tx max_claims) = nat max_claims)"
proof (intro conjI impI allI)
  have ic: "item_claims sf = (\<lambda>item. case coerce_item sf item of
                                    Inl e \<Rightarrow> []
                                  | Inr c \<Rightarrow> if truthy (claim c) \<and> 1 / 2 \<le> confidence c
                                            then [c] else [])"
    by (rule ext) (simp add: item_claims_def keep_claim_def split: sum.splits)
  from assms(1) have ne: "tx \<noteq> []" "\<not> length tx < 50" by auto
  have eq0: "extract_claims sf llm tx max_claims
           = concat (map (item_claims sf) (py_slice_to claims_data max_claims))"
    using ne assms(2,4) collect_claims_ok [OF assms(3)]
    by (simp add: extract_claims_def)
  then show eq: "extract_claims sf llm tx max_claims
           = concat (map (\<lambda>item. case coerce_item sf item of
                                    Inl e \<Rightarrow> []
                                  | Inr c \<Rightarrow> if truthy (claim c) \<and> 1 / 2 \<le> confidence c
                                            then [c] else [])
                         (py_slice_to claims_data max_claims))"
    by (simp only: ic)
  show "py_slice_to claims_data max_claims
           = (if 0 \<le> max_claims then take (nat max_claims) claims_data
              else take (length claims_data - nat (- max_claims)) claims_data)"
    by (simp add: py_slice_to_def)
  show "coerce_item sf (JObj kvs) =
             (case py_float_of sf (case map_of kvs (str ''confidence'') of
                                     None \<Rightarrow> JFloat (1 / 2) | Some v \<Rightarrow> v) of
                Inl e \<Rightarrow> Inl e
              | Inr x \<Rightarrow>
                  Inr \<lparr>claim = (case map_of kvs (str ''claim'') of None \<Rightarrow> JStr [] | Some v \<Rightarrow> v),
                       category = (case map_of kvs (str ''category'') of
                                     None \<Rightarrow> JStr (str ''other'') | Some v \<Rightarrow> v),
                       entities = (case map_of kvs (str ''entities'') of None \<Rightarrow> JArr [] | Some v \<Rightarrow> v),
                       original_text = (case map_of kvs (str ''original_text'') of
                                          None \<Rightarrow> JStr [] | Some v \<Rightarrow> v),
                       confidence = x\<rparr>)" for kvs
    by (simp add: coerce_item_def)
  show "length (extract_claims sf llm tx max_claims) \<le> nat max_claims" if "0 \<le> max_claims"
    using that by (rule extract_claims_length)
  show "length (extract_claims sf llm tx max_claims) = nat max_claims"
    if n: "0 \<le> max_claims" and len: "nat max_claims \<le> length claims_data"
      and all: "list_all (\<lambda>item. case coerce_item sf item of
                               Inl e \<Rightarrow> False
                             | Inr c \<Rightarrow> truthy (claim c) \<and> 1 / 2 \<le> confidence c)
              (take (nat max_claims) claims_data)"
  proof -
    from n have sl: "py_slice_to claims_data max_claims = take (nat max_claims) claims_data"
      by (simp add: py_slice_to_def)
    have "list_all (\<lambda>item. length (item_claims sf item) = 1) (take (nat max_claims) claims_data)"
      using all by (auto simp: list_all_iff ic split: sum.splits)
    from length_concat_singletons [OF this]
    have "length (concat (map (item_claims sf) (take (nat max_claims) claims_data)))
        = length (take (nat max_claims) claims_data)" .
    also have "\<dots> = nat max_claims"
      using len by simp
    finally show ?thesis using eq0 sl by simp
  qed
qed

theorem truncate_then_filter_witness:
  "extract_claims (py_float ascii_only)
     (\<lambda>t. Inr [example_item (str ''Aave TVL is $10 billion'') (str ''tvl'') (7 / 8),
               example_item (str ''Aave is big'') (str ''other'') (3 / 8)])
     example_transcript 1
   = [example_claim (str ''Aave TVL is $10 billion'') (str ''tvl'')]
   \<and> length (extract_claims (py_float ascii_only)
     (\<lambda>t. Inr [example_item (str ''Aave TVL is $10 billion'') (str ''tvl'') (7 / 8),
               example_item (str ''Aave is big'') (str ''other'') (3 / 8)])
     example_transcript 1) = 1"
proof -
  let ?good = "example_item (str ''Aave TVL is $10 billion'') (str ''tvl'') (7 / 8)"
  let ?low = "example_item (str ''Aave is big'') (str ''other'') (3 / 8)"
  let ?llm = "\<lambda>t::pystr. (Inr [?good, ?low] :: py_error + json list)"
  let ?sf = "py_float ascii_only"
  have len: "50 \<le> length example_transcript"
    by (simp add: example_transcript_def length_str)
  have llm: "?llm (if 15000 < length example_transcript
                  then take 15000 example_transcript @ str ''...'' else example_transcript)
             = Inr [?good, ?low]"
    by simp
  have slice: "py_slice_to [?good, ?low] 1 = [?good]"
    by (simp add: py_slice_to_def)
  have tr: "truthy (claim (example_claim (str ''Aave TVL is $10 billion'') (str ''tvl'')))
      \<and> 1 / 2 \<le> confidence (example_claim (str ''Aave TVL is $10 billion'') (str ''tvl''))"
    by (simp add: example_claim_def str_Nil_iff)
  have ic: "item_claims ?sf ?good = [example_claim (str ''Aave TVL is $10 billion'') (str ''tvl'')]"
    using tr by (simp add: item_claims_def ci_good keep_claim_def)
  have nf: "list_all (no_fatal_error ?sf) (py_slice_to [?good, ?low] 1)"
    by (simp add: slice no_fatal_error_def ci_good)
  have hs: "list_all (\<lambda>c. hashable (category c))
           (concat (map (item_claims ?sf) (py_slice_to [?good, ?low] 1)))"
    by (simp add: slice ic example_claim_def)
  from truncate_then_filter [OF len llm nf hs]
  have "extract_claims ?sf ?llm example_transcript 1
           = concat (map (\<lambda>item. case coerce_item ?sf item of
                                    Inl e \<Rightarrow> []
                                  | Inr c \<Rightarrow> if truthy (claim c) \<and> 1 / 2 \<le> confidence c
                                            then [c] else [])
                         (py_slice_to [?good, ?low] 1))"
    by blast
  then have "extract_claims ?sf ?llm example_transcript 1
      = [example_claim (str ''Aave TVL is $10 billion'') (str ''tvl'')]"
    using tr by (simp add: slice ci_good)
  then show ?thesis by simp
qed

end
